theory Spec2Isabelle
  imports Complex_Main "HOL-Library.AList"
begin


section \<open>Cells, rows and tables\<close>

text \<open>
  A pandas cell of the crash files is missing (\<open>np.nan\<close>), a number, an infinite
  float (\<open>Infty True\<close> is \<open>inf\<close>, \<open>Infty False\<close> is \<open>-inf\<close>) or a text token.
  Numbers are exact: \<open>2\<close> and \<open>2.0\<close> are the same number, as they are for \<open>==\<close>
  and for dictionary lookup, and the rounding and overflow of float arithmetic are not
  represented. A row maps column names to cells and a table is the list of its rows, in
  index order. A column that a row does not carry reads as missing.
\<close>

datatype cell = NA | Num rat | Infty bool | Str string

type_synonym row = "string \<rightharpoonup> cell"
type_synonym table = "row list"

definition col :: "row \<Rightarrow> string \<Rightarrow> cell" where
  "col r c = (case r c of None \<Rightarrow> NA | Some v \<Rightarrow> v)"

text \<open>A row written out: the listed columns carry the listed cells.\<close>

definition row_of :: "(string \<times> cell) list \<Rightarrow> row" where
  "row_of al = map_of al"

definition isna :: "cell \<Rightarrow> bool" where
  "isna v = (v = NA)"

text \<open>\<open>Series.replace(dict)\<close>: a cell equal to a key becomes that key's value, any other
  cell stays. No key is \<open>np.nan\<close>, so a missing cell stays missing.\<close>

definition replace :: "(cell \<times> cell) list \<Rightarrow> cell \<Rightarrow> cell" where
  "replace d v = (case map_of d v of None \<Rightarrow> v | Some w \<Rightarrow> w)"

text \<open>\<open>v.fillna(w)\<close>\<close>

definition fillna :: "cell \<Rightarrow> cell \<Rightarrow> cell" where
  "fillna w v = (if isna v then w else v)"

subsection \<open>\<open>pd.to_numeric(..., errors='coerce')\<close>\<close>

text \<open>
  Numbers stay, missing stays, and a text token becomes the number it spells or, when it
  spells none, missing. A token spells a number when, blanks before and after it set aside,
  it is an optional sign, decimal digits with an optional point among them (one digit at
  least), and an optional exponent: \<open>e\<close> or \<open>E\<close>, an optional sign and digits.
  The words \<open>inf\<close> and \<open>infinity\<close>, in either case and with an optional sign,
  spell the infinite floats.
\<close>

definition digit_val :: "char \<Rightarrow> nat option" where
  "digit_val = map_of [(CHR ''0'', 0), (CHR ''1'', 1), (CHR ''2'', 2), (CHR ''3'', 3),
     (CHR ''4'', 4), (CHR ''5'', 5), (CHR ''6'', 6), (CHR ''7'', 7), (CHR ''8'', 8),
     (CHR ''9'', 9)]"

fun digits_val :: "string \<Rightarrow> nat \<Rightarrow> nat option" where
  "digits_val [] acc = Some acc"
| "digits_val (c # cs) acc =
     (case digit_val c of None \<Rightarrow> None | Some d \<Rightarrow> digits_val cs (10 * acc + d))"

definition is_space :: "char \<Rightarrow> bool" where
  "is_space c = (c \<in> set [CHR '' '', CHR 0x09, CHR 0x0A, CHR 0x0B, CHR 0x0C, CHR 0x0D])"

definition strip :: "string \<Rightarrow> string" where
  "strip s = rev (dropWhile is_space (rev (dropWhile is_space s)))"

fun split_sign :: "string \<Rightarrow> bool \<times> string" where
  "split_sign [] = (False, [])"
| "split_sign (c # cs) =
     (if c = CHR ''-'' then (True, cs) else if c = CHR ''+'' then (False, cs) else (False, c # cs))"

definition mantissa :: "string \<Rightarrow> rat option" where
  "mantissa s =
     (let ip = takeWhile (\<lambda>c. c \<noteq> CHR ''.'') s;
          fp = drop 1 (dropWhile (\<lambda>c. c \<noteq> CHR ''.'') s)
      in if ip = [] \<and> fp = [] then None
         else (case (digits_val ip 0, digits_val fp 0) of
                 (Some i, Some f) \<Rightarrow> Some (of_nat i + of_nat f / 10 ^ length fp)
               | _ \<Rightarrow> None))"

definition exponent :: "string \<Rightarrow> int option" where
  "exponent s =
     (case split_sign s of
        (neg, ds) \<Rightarrow>
          if ds = [] then None
          else (case digits_val ds 0 of None \<Rightarrow> None
                | Some e \<Rightarrow> Some (if neg then - int e else int e)))"

definition pow10 :: "int \<Rightarrow> rat" where
  "pow10 e = (if 0 \<le> e then 10 ^ nat e else 1 / 10 ^ nat (- e))"

definition is_e :: "char \<Rightarrow> bool" where
  "is_e c = (c = CHR ''e'' \<or> c = CHR ''E'')"

definition parse_number :: "string \<Rightarrow> rat option" where
  "parse_number s =
     (case split_sign (strip s) of
        (neg, body) \<Rightarrow>
          (case (mantissa (takeWhile (\<lambda>c. \<not> is_e c) body),
                 case dropWhile (\<lambda>c. \<not> is_e c) body of
                   [] \<Rightarrow> Some 0
                 | e # ds \<Rightarrow> exponent ds) of
             (Some m, Some e) \<Rightarrow> Some ((if neg then - m else m) * pow10 e)
           | _ \<Rightarrow> None))"

definition lower :: "char \<Rightarrow> char" where
  "lower c =
     (case map_of (zip ''ABCDEFGHIJKLMNOPQRSTUVWXYZ'' ''abcdefghijklmnopqrstuvwxyz'') c of
        None \<Rightarrow> c | Some l \<Rightarrow> l)"

definition parse_inf :: "string \<Rightarrow> bool option" where
  "parse_inf s =
     (if map lower s \<in> set [''inf'', ''+inf'', ''infinity'', ''+infinity''] then Some True
      else if map lower s \<in> set [''-inf'', ''-infinity''] then Some False
      else None)"

fun to_numeric :: "cell \<Rightarrow> cell" where
  "to_numeric (Str s) =
     (case parse_inf s of
        Some b \<Rightarrow> Infty b
      | None \<Rightarrow> (case parse_number s of None \<Rightarrow> NA | Some q \<Rightarrow> Num q))"
| "to_numeric v = v"

subsection \<open>Column statements\<close>

text \<open>Each is one elementwise pandas statement, given by what it does to a row.\<close>

definition to_numeric_col :: "string \<Rightarrow> row \<Rightarrow> row" where
  \<comment> \<open>\<open>df[c] = pd.to_numeric(df[c], errors='coerce')\<close>\<close>
  "to_numeric_col c r = r(c \<mapsto> to_numeric (col r c))"

definition replace_col :: "(cell \<times> cell) list \<Rightarrow> string \<Rightarrow> row \<Rightarrow> row" where
  \<comment> \<open>\<open>df[c] = df[c].replace(d)\<close>\<close>
  "replace_col d c r = r(c \<mapsto> replace d (col r c))"

definition replace_into :: "string \<Rightarrow> string \<Rightarrow> (cell \<times> cell) list \<Rightarrow> row \<Rightarrow> row" where
  \<comment> \<open>\<open>df[dst] = df[src].replace(d)\<close>\<close>
  "replace_into dst src d r = r(dst \<mapsto> replace d (col r src))"

definition fillna_col :: "string \<Rightarrow> cell \<Rightarrow> row \<Rightarrow> row" where
  \<comment> \<open>\<open>df[c] = df[c].fillna(w)\<close>\<close>
  "fillna_col c w r = r(c \<mapsto> fillna w (col r c))"

section \<open>Features in bicycles\<close>

definition GRADE_codes :: "(cell \<times> cell) list" where
  "GRADE_codes = [(Num 1, Str ''level''), (Num 2, Str ''uphill''), (Num 3, Str ''downhill''),
     (Num 4, Str ''bottom_hill''), (Num 5, Str ''top_hill''), (Num 9, NA)]"

definition IMPACT_SIDE_codes :: "(cell \<times> cell) list" where
  "IMPACT_SIDE_codes = [(Num 0, Str ''non_collision''), (Num 13, Str ''top''),
     (Num 14, Str ''undercarriage''),
     (Num 11, Str ''front''), (Num 12, Str ''front''), (Num 1, Str ''front''),
     (Num 2, Str ''front_right''), (Num 3, Str ''right''), (Num 4, Str ''rear_right''),
     (Num 5, Str ''rear''), (Num 6, Str ''rear''), (Num 7, Str ''rear''),
     (Num 8, Str ''rear_left''), (Num 9, Str ''left''), (Num 10, Str ''front_left''),
     (Num 99, NA)]"

definition RDWY_ALIGNMENT_codes :: "(cell \<times> cell) list" where
  "RDWY_ALIGNMENT_codes = [(Num 1, Str ''straight''), (Num 2, Str ''curve''),
     (Num 3, Str ''curve''), (Num 4, Str ''curve''), (Num 9, NA)]"

definition VEH_ROLE_codes :: "(cell \<times> cell) list" where
  "VEH_ROLE_codes = [(Num 0, Str ''non_collision''), (Num 1, Str ''striking''),
     (Num 2, Str ''struck''), (Num 3, Str ''striking_struck'')]"

definition VEH_TYPE_codes :: "(cell \<times> cell) list" where
  "VEH_TYPE_codes = [(Num 20, Str ''bicycle''), (Num 21, Str ''other_pedalcycle'')]"

definition VEH_POSITION_codes :: "(cell \<times> cell) list" where
  "VEH_POSITION_codes = [(Num 0, NA), (Num 1, Str ''right_lane_curb''), (Num 2, Str ''right_lane''),
     (Num 3, Str ''left_lane''), (Num 4, Str ''left_turn_lane''),
     (Num 5, Str ''center_turn_lane''), (Num 6, Str ''other_forward_lane''),
     (Num 7, Str ''oncoming_lane''), (Num 8, Str ''left_of_trafficway''),
     (Num 9, Str ''right_of_trafficway''), (Num 10, Str ''HOV_lane''),
     (Num 11, Str ''shoulder_right''), (Num 12, Str ''shoulder_left''),
     (Num 13, Str ''one_lane_road''), (Num 14, Str ''acc_dec_lane''),
     (Num 98, Str ''other''), (Num 99, NA)]"

definition VEH_MOVEMENT_codes :: "(cell \<times> cell) list" where
  "VEH_MOVEMENT_codes = [(Num 1, Str ''straight''), (Num 2, Str ''slowing_or_stopping_in_lane''),
     (Num 3, Str ''stopped_in_lane''), (Num 4, Str ''passing_vehicle''),
     (Num 5, Str ''entering_lane''), (Num 6, Str ''parked''),
     (Num 7, Str ''leaving_lane''), (Num 8, Str ''avoiding''),
     (Num 9, Str ''turning_right_red''), (Num 10, Str ''turning_right''),
     (Num 11, Str ''turning_left_red''), (Num 12, Str ''turning_left''),
     (Num 13, Str ''u_turn''), (Num 14, Str ''backing''), (Num 15, Str ''changing_merging''),
     (Num 16, Str ''curve_right''), (Num 17, Str ''curve_left''),
     (Num 18, Str ''entering_lane''), (Num 19, Str ''leaving_lane''),
     (Num 98, Str ''other''), (Num 99, NA)]"

text \<open>The first loop of the cell: the five mixed-type fields are coerced to numbers.\<close>

definition coerce_bicycle :: "row \<Rightarrow> row" where
  "coerce_bicycle =
     fold to_numeric_col
       [''RDWY_ALIGNMENT'', ''VEH_MOVEMENT'', ''VEH_TYPE'', ''VEH_POSITION'', ''VEH_ROLE'']"

text \<open>The rest of the cell: dictionary replacements, the derived impact side, the two fills.\<close>

definition label_bicycle :: "row \<Rightarrow> row" where
  "label_bicycle r =
     (let r = fold (replace_col [(Str ''Y'', Num 1), (Str ''N'', Num 0), (Str ''U'', NA)])
                [''PC_HDLGHT_IND'', ''PC_HLMT_IND'', ''PC_REAR_RFLTR_IND''] r;
          r = fold (replace_col [(Str ''U'', NA), (Num 99, NA)]) [''UNIT_NUM'', ''IMPACT_POINT''] r;
          r = replace_col GRADE_codes ''GRADE'' r;
          r = replace_into ''IMPACT_SIDE'' ''IMPACT_POINT'' IMPACT_SIDE_codes r;
          r = replace_col RDWY_ALIGNMENT_codes ''RDWY_ALIGNMENT'' r;
          r = replace_col VEH_ROLE_codes ''VEH_ROLE'' r;
          r = replace_col VEH_TYPE_codes ''VEH_TYPE'' r;
          r = replace_col VEH_POSITION_codes ''VEH_POSITION'' r;
          r = replace_col VEH_MOVEMENT_codes ''VEH_MOVEMENT'' r;
          r = fillna_col ''UNIT_NUM'' (Num 1) r;
          r = fillna_col ''VEH_ROLE'' (Str ''non_collision'') r
      in r)"

definition recode_bicycle :: "row \<Rightarrow> row" where
  "recode_bicycle r = label_bicycle (coerce_bicycle r)"

definition clean_bicycles :: "table \<Rightarrow> table" where
  "clean_bicycles bicycles = map recode_bicycle bicycles"

section \<open>Features in persons\<close>

definition INJ_SEVERITY_codes :: "(cell \<times> cell) list" where
  "INJ_SEVERITY_codes = [(Num 0, Str ''no_injury''), (Num 1, Str ''killed''),
     (Num 2, Str ''susp_serious_injury''), (Num 3, Str ''susp_minor_injury''),
     (Num 4, Str ''possible_injury''), (Num 8, Str ''unknown_injury''), (Num 9, NA)]"

definition PERSON_TYPE_codes :: "(cell \<times> cell) list" where
  "PERSON_TYPE_codes = [(Num 1, Str ''driver''), (Num 2, Str ''passenger''),
     (Num 7, Str ''pedestrian''), (Num 8, Str ''other''), (Num 9, NA)]"

definition RESTRAINT_HELMET_codes :: "(cell \<times> cell) list" where
  "RESTRAINT_HELMET_codes = [(Num 0, Str ''no_restraint''), (Num 1, Str ''shoulder_belt''),
     (Num 2, Str ''lap_belt''), (Num 3, Str ''lap_shoulder_belt''), (Num 4, Str ''child_seat''),
     (Num 5, Str ''motorcycle_helmet''), (Num 6, Str ''bicycle_helmet''),
     (Num 10, Str ''belt_improper''), (Num 11, Str ''child_seat_improper''),
     (Num 12, Str ''helmet_improper''), (Num 21, Str ''child_seat''), (Num 22, Str ''child_seat''),
     (Num 23, Str ''booster_seat''), (Num 24, Str ''child_restraint_unknown''),
     (Num 90, Str ''unknown_restraint''), (Num 98, Str ''other''), (Num 99, NA)]"

definition recode_person :: "row \<Rightarrow> row" where
  "recode_person r =
     (let r = to_numeric_col ''INJ_SEVERITY'' r;
          r = replace_col [(Num 99, NA)] ''AGE'' r;
          r = fold (replace_col [(Str ''Y'', Num 1), (Str ''N'', Num 0), (Str ''U'', NA),
                      (Str ''0'', Num 0), (Str '' '', NA), (Str ''R'', NA), (Str ''9'', NA),
                      (Num 97, NA)])
                [''SEX'', ''TRANSPORTED'', ''UNIT_NUM''] r;
          r = replace_col INJ_SEVERITY_codes ''INJ_SEVERITY'' r;
          r = replace_col PERSON_TYPE_codes ''PERSON_TYPE'' r;
          r = replace_col RESTRAINT_HELMET_codes ''RESTRAINT_HELMET'' r
      in r)"

subsection \<open>Writing one cell by index label: \<open>df.at[l, c] = v\<close>\<close>

text \<open>
  A table read from a file carries the labels \<open>0, 1, 2, ...\<close>. Writing at a label
  the table has changes that row; writing at a label it does not have appends a row with
  that label, missing in every other column.
\<close>

definition with_index :: "table \<Rightarrow> (nat \<times> row) list" where
  "with_index t = zip [0..<length t] t"

definition set_at :: "nat \<Rightarrow> string \<Rightarrow> cell \<Rightarrow> (nat \<times> row) list \<Rightarrow> (nat \<times> row) list" where
  "set_at l c v t =
     (if l \<in> fst ` set t then map (\<lambda>(k, r). (k, if k = l then r(c \<mapsto> v) else r)) t
      else t @ [(l, [c \<mapsto> v])])"

text \<open>The last statement of the cell moves the person at label 35557 to unit 2.\<close>

definition clean_persons :: "table \<Rightarrow> table" where
  "clean_persons persons =
     map snd (set_at 35557 ''UNIT_NUM'' (Num 2) (with_index (map recode_person persons)))"

section \<open>Failing statements\<close>

text \<open>A statement that raises stops the run; nothing is exported then.\<close>

datatype error = TypeError | KeyError | ValueError

fun traverse :: "('a \<Rightarrow> error + 'b) \<Rightarrow> 'a list \<Rightarrow> error + 'b list" where
  "traverse f [] = Inr []"
| "traverse f (x # xs) =
     (case f x of Inl e \<Rightarrow> Inl e
      | Inr y \<Rightarrow> (case traverse f xs of Inl e \<Rightarrow> Inl e | Inr ys \<Rightarrow> Inr (y # ys)))"

definition and_then :: "error + 'a \<Rightarrow> ('a \<Rightarrow> error + 'b) \<Rightarrow> error + 'b" where
  "and_then x f = (case x of Inl e \<Rightarrow> Inl e | Inr v \<Rightarrow> f v)"

section \<open>Features in crashes\<close>

definition COLLISION_TYPE_codes :: "(cell \<times> cell) list" where
  "COLLISION_TYPE_codes = [(Num 0, Str ''non_collision''), (Num 1, Str ''rear_end''),
     (Num 2, Str ''head_on''), (Num 3, Str ''backing''), (Num 4, Str ''angle''),
     (Num 5, Str ''sideswipe_same_dir''), (Num 6, Str ''sideswipe_opp_dir''),
     (Num 7, Str ''hit_fixed_obj''), (Num 8, Str ''hit_ped''),
     (Num 9, Str ''other''), (Num 98, Str ''other''), (Num 99, NA)]"

definition ILLUMINATION_codes :: "(cell \<times> cell) list" where
  "ILLUMINATION_codes = [(Num 1, Str ''daylight''), (Num 2, Str ''dark_unlit''),
     (Num 3, Str ''dark_lit''), (Num 4, Str ''dusk''), (Num 5, Str ''dawn''),
     (Num 6, Str ''dark_lit''), (Num 8, Str ''other''), (Num 9, NA)]"

definition ROAD_CONDITION_codes :: "(cell \<times> cell) list" where
  "ROAD_CONDITION_codes = [(Num 1, Str ''dry''), (Num 2, Str ''ice_frost''),
     (Num 3, Str ''mud_dirt_gravel''), (Num 4, Str ''oil''), (Num 5, Str ''sand''),
     (Num 6, Str ''slush''), (Num 7, Str ''snow''), (Num 8, Str ''water''), (Num 9, Str ''wet''),
     (Num 98, Str ''other''), (Num 0, NA), (Num 99, NA)]"

definition URBAN_RURAL_codes :: "(cell \<times> cell) list" where
  "URBAN_RURAL_codes = [(Num 1, Str ''rural''), (Num 2, Str ''urbanized''), (Num 3, Str ''urban'')]"

definition INTERSECT_TYPE_codes :: "(cell \<times> cell) list" where
  "INTERSECT_TYPE_codes = [(Num 0, Str ''midblock''), (Num 1, Str ''four_way''), (Num 2, Str ''T''),
     (Num 3, Str ''Y''), (Num 4, Str ''circle''), (Num 5, Str ''multi_leg''),
     (Num 6, Str ''ramp_end''), (Num 7, Str ''ramp_begin''), (Num 8, Str ''crossover''),
     (Num 9, Str ''rr_crossing''), (Num 10, Str ''other''), (Num 11, Str ''L''),
     (Num 12, Str ''circle''), (Num 13, Str ''circle''), (Num 99, NA)]"

definition LOCATION_TYPE_codes :: "(cell \<times> cell) list" where
  "LOCATION_TYPE_codes = [(Num 0, Str ''not_applicable''), (Num 99, NA), (Num 1, Str ''underpass''),
     (Num 2, Str ''ramp''), (Num 3, Str ''bridge''), (Num 4, Str ''tunnel''),
     (Num 5, Str ''toll_booth''), (Num 6, Str ''cross_over_related''),
     (Num 7, Str ''driveway_parking_lot''), (Num 8, Str ''ramp_bridge'')]"

definition RELATION_TO_ROAD_codes :: "(cell \<times> cell) list" where
  "RELATION_TO_ROAD_codes = [(Num 1, Str ''on_roadway''), (Num 2, Str ''shoulder''),
     (Num 3, Str ''median''), (Num 4, Str ''roadside''), (Num 5, Str ''outside_trafficway''),
     (Num 6, Str ''parking_lane''), (Num 7, Str ''int_ramp_hwy''), (Num 9, NA)]"

definition TCD_TYPE_codes :: "(cell \<times> cell) list" where
  "TCD_TYPE_codes = [(Num 0, Str ''not_applicable''), (Num 1, Str ''flashing_traffic_signal''),
     (Num 2, Str ''traffic_signal''), (Num 3, Str ''stop_sign''), (Num 4, Str ''yield_sign''),
     (Num 5, Str ''active_RR_controls''), (Num 6, Str ''passive_RR_controls''),
     (Num 7, Str ''officer_or_flagman''), (Num 8, Str ''other''), (Num 9, NA)]"

definition TCD_FUNC_CD_codes :: "(cell \<times> cell) list" where
  "TCD_FUNC_CD_codes = [(Num 0, Str ''no_controls''), (Num 1, Str ''not_functioning''),
     (Num 2, Str ''functioning_improperly''), (Num 3, Str ''functioning_properly''),
     (Num 4, Str ''emergency_preemptive_signal''), (Num 9, NA)]"

definition WEATHER_codes :: "(cell \<times> cell) list" where
  "WEATHER_codes = [(Num 1, Str ''blowing_sand_soil_dirt''), (Num 2, Str ''blowing_snow''),
     (Num 3, Str ''clear''), (Num 4, Str ''cloudy''), (Num 5, Str ''fog_smog_smoke''),
     (Num 6, Str ''freezing_rain''), (Num 7, Str ''rain''), (Num 8, Str ''severe_crosswind''),
     (Num 9, Str ''sleet_hail''), (Num 10, Str ''snow''), (Num 98, Str ''other'')]"

text \<open>The statements of the cell up to the second coercion of the weather fields.\<close>

definition recode_crash :: "row \<Rightarrow> row" where
  "recode_crash r =
     (let r = fold to_numeric_col [''WEATHER1'', ''WEATHER2'', ''TIME_OF_DAY''] r;
          r = fold (replace_col [(Num 9999, NA)]) [''DISPATCH_TM'', ''ARRIVAL_TM'', ''TIME_OF_DAY''] r;
          r = replace_col [(Num 99, NA), (Num 24, Num 0)] ''HOUR_OF_DAY'' r;
          r = replace_col COLLISION_TYPE_codes ''COLLISION_TYPE'' r;
          r = replace_col ILLUMINATION_codes ''ILLUMINATION'' r;
          r = replace_col ROAD_CONDITION_codes ''ROAD_CONDITION'' r;
          r = replace_col URBAN_RURAL_codes ''URBAN_RURAL'' r;
          r = replace_col INTERSECT_TYPE_codes ''INTERSECT_TYPE'' r;
          r = replace_col LOCATION_TYPE_codes ''LOCATION_TYPE'' r;
          r = replace_col RELATION_TO_ROAD_codes ''RELATION_TO_ROAD'' r;
          r = replace_col TCD_TYPE_codes ''TCD_TYPE'' r;
          r = replace_col TCD_FUNC_CD_codes ''TCD_FUNC_CD'' r;
          r = fold to_numeric_col [''WEATHER1'', ''WEATHER2''] r
      in r)"

text \<open>Counts to presence: \<open>lambda x: 1 if x>0 else x\<close>. A missing count compares
  false and stays missing; comparing a text token with \<open>0\<close> raises.\<close>

fun presence :: "cell \<Rightarrow> error + cell" where
  "presence (Num q) = Inr (if q > 0 then Num 1 else Num q)"
| "presence (Infty b) = Inr (if b then Num 1 else Infty b)"
| "presence NA = Inr NA"
| "presence (Str s) = Inl TypeError"

definition presence_col :: "string \<Rightarrow> row \<Rightarrow> error + row" where
  \<comment> \<open>\<open>crashes[feat] = crashes[feat+'_COUNT'].apply(...)\<close>\<close>
  "presence_col feat r = and_then (presence (col r (feat @ ''_COUNT''))) (\<lambda>v. Inr (r(feat \<mapsto> v)))"

definition presence_flags :: "row \<Rightarrow> error + row" where
  "presence_flags r =
     fold (\<lambda>feat x. and_then x (presence_col feat))
       [''BUS'', ''HEAVY_TRUCK'', ''SMALL_TRUCK'', ''SUV'', ''VAN''] (Inr r)"

subsection \<open>The two weather fields\<close>

text \<open>\<open>a == b\<close> on cells: a missing cell equals nothing, itself included.\<close>

definition cell_eq :: "cell \<Rightarrow> cell \<Rightarrow> bool" where
  "cell_eq a b = (a \<noteq> NA \<and> a = b)"

definition fill_WEATHER1 :: "row \<Rightarrow> row" where
  \<comment> \<open>\<open>crashes['WEATHER1'] = crashes.WEATHER1.fillna(crashes.WEATHER2)\<close>\<close>
  "fill_WEATHER1 r = r(''WEATHER1'' \<mapsto> fillna (col r ''WEATHER2'') (col r ''WEATHER1''))"

definition clear_WEATHER2 :: "row \<Rightarrow> row" where
  \<comment> \<open>\<open>crashes.loc[crashes.WEATHER1==crashes.WEATHER2,'WEATHER2']=np.nan\<close>\<close>
  "clear_WEATHER2 r =
     (if cell_eq (col r ''WEATHER1'') (col r ''WEATHER2'') then r(''WEATHER2'' \<mapsto> NA) else r)"

definition prefer_WEATHER2 :: "row \<Rightarrow> row" where
  \<comment> \<open>\<open>WEATHER1.where((WEATHER1!=3)|(WEATHER2.isna()), WEATHER2)\<close>: keep where the
      condition holds, take \<open>WEATHER2\<close> elsewhere\<close>
  "prefer_WEATHER2 r =
     r(''WEATHER1'' \<mapsto>
         (if col r ''WEATHER1'' \<noteq> Num 3 \<or> isna (col r ''WEATHER2'') then col r ''WEATHER1''
          else col r ''WEATHER2''))"

definition rename_col :: "string \<Rightarrow> string \<Rightarrow> row \<Rightarrow> row" where
  "rename_col old new r = (r(new := r old))(old := None)"

definition drop_cols :: "string list \<Rightarrow> row \<Rightarrow> row" where
  "drop_cols cs r = fold (\<lambda>c r. r(c := None)) cs r"

definition consolidate_weather :: "row \<Rightarrow> row" where
  "consolidate_weather r =
     (let r = fold (replace_col [(Num 99, NA)]) [''WEATHER1'', ''WEATHER2''] r;
          r = fill_WEATHER1 r;
          r = clear_WEATHER2 r;
          r = prefer_WEATHER2 r;
          r = rename_col ''WEATHER1'' ''WEATHER'' r;
          r = drop_cols [''WEATHER2''] r;
          r = replace_col WEATHER_codes ''WEATHER'' r
      in r)"

subsection \<open>Coordinates\<close>

text \<open>Three crashes, named by index label, get their coordinates cleared or replaced by
  the decimals written in the source.\<close>

definition fix_coordinates :: "table \<Rightarrow> table" where
  "fix_coordinates crashes =
     (let t = with_index crashes;
          t = set_at 24770 ''DEC_LAT'' NA t;
          t = set_at 24770 ''DEC_LONG'' NA t;
          t = set_at 3087 ''DEC_LAT'' (Num (400081 / 10000)) t;
          t = set_at 3087 ''DEC_LONG'' (Num (- 751923 / 10000)) t;
          t = set_at 24805 ''DEC_LAT'' (Num (403322 / 10000)) t;
          t = set_at 24805 ''DEC_LONG'' (Num (- 759278 / 10000)) t
      in map snd t)"

text \<open>
  \<open>df.groupby(area)[c]\<close>: the group of a key holds the cells of column \<open>c\<close> in the rows
  with that key. Rows whose key is missing are in no group; a transform leaves them missing.
  The mean skips missing cells, is missing when nothing is left, and raises on text; with
  an infinite float among the cells it is that float, or missing when both are there.
  Otherwise it is the exact quotient.
\<close>

definition group_values :: "string \<Rightarrow> string \<Rightarrow> table \<Rightarrow> cell \<Rightarrow> cell list" where
  "group_values area c t k = map (\<lambda>r. col r c) (filter (\<lambda>r. col r area = k) t)"

fun num_of :: "cell \<Rightarrow> rat list" where
  "num_of (Num q) = [q]"
| "num_of v = []"

definition nums :: "cell list \<Rightarrow> rat list" where
  "nums vs = concat (map num_of vs)"

fun is_text :: "cell \<Rightarrow> bool" where
  "is_text (Str s) = True"
| "is_text v = False"

definition mean :: "cell list \<Rightarrow> error + cell" where
  "mean vs =
     (if list_ex is_text vs then Inl TypeError
      else if List.member vs (Infty True) \<and> List.member vs (Infty False) then Inr NA
      else if List.member vs (Infty True) then Inr (Infty True)
      else if List.member vs (Infty False) then Inr (Infty False)
      else (case nums vs of [] \<Rightarrow> Inr NA
            | q # qs \<Rightarrow> Inr (Num (sum_list (q # qs) / of_nat (length (q # qs))))))"

definition fill_group_mean :: "string \<Rightarrow> string \<Rightarrow> table \<Rightarrow> error + table" where
  \<comment> \<open>\<open>crashes[coord]=crashes.groupby(area)[coord].transform(lambda x:x.fillna(x.mean()))\<close>\<close>
  "fill_group_mean coord area t =
     traverse (\<lambda>r. if isna (col r area) then Inr (r(coord \<mapsto> NA))
                   else and_then (mean (group_values area coord t (col r area)))
                          (\<lambda>m. Inr (r(coord \<mapsto> fillna m (col r coord))))) t"

definition fill_coordinates :: "table \<Rightarrow> error + table" where
  "fill_coordinates crashes =
     fold (\<lambda>coord x. fold (\<lambda>area x. and_then x (fill_group_mean coord area))
                          [''MUNICIPALITY'', ''COUNTY''] x)
       [''DEC_LAT'', ''DEC_LONG''] (Inr crashes)"

subsection \<open>Hour of day, illumination\<close>

text \<open>\<open>x.floordiv(d)\<close>: the floor of the quotient; an infinite float gives \<open>nan\<close>.\<close>

fun floordiv :: "cell \<Rightarrow> rat \<Rightarrow> error + cell" where
  "floordiv (Num q) d = Inr (Num (of_int \<lfloor>q / d\<rfloor>))"
| "floordiv (Infty b) d = Inr NA"
| "floordiv NA d = Inr NA"
| "floordiv (Str s) d = Inl TypeError"

definition fill_hour_from :: "string \<Rightarrow> row \<Rightarrow> error + row" where
  \<comment> \<open>\<open>crashes['HOUR_OF_DAY'] = crashes.HOUR_OF_DAY.fillna(crashes[src].floordiv(100))\<close>\<close>
  "fill_hour_from src r =
     and_then (floordiv (col r src) 100)
       (\<lambda>h. Inr (r(''HOUR_OF_DAY'' \<mapsto> fillna h (col r ''HOUR_OF_DAY''))))"

definition fill_hour :: "row \<Rightarrow> error + row" where
  "fill_hour r =
     fold (\<lambda>src x. and_then x (fill_hour_from src))
       [''TIME_OF_DAY'', ''DISPATCH_TM'', ''ARRIVAL_TM''] (Inr r)"

definition finish_crash :: "row \<Rightarrow> row" where
  "finish_crash r =
     drop_cols [''DISPATCH_TM'', ''ARRIVAL_TM''] (fillna_col ''ILLUMINATION'' (Str ''daylight'') r)"

section \<open>Roadway speed limits\<close>

text \<open>The order of the numeric cells: \<open>-inf\<close> below every number, \<open>inf\<close> above.\<close>

fun is_number :: "cell \<Rightarrow> bool" where
  "is_number (Num q) = True"
| "is_number (Infty b) = True"
| "is_number v = False"

fun cell_less :: "cell \<Rightarrow> cell \<Rightarrow> bool" where
  "cell_less (Num a) (Num b) = (a < b)"
| "cell_less (Num a) (Infty b) = b"
| "cell_less (Infty a) (Num b) = (\<not> a)"
| "cell_less (Infty a) (Infty b) = (\<not> a \<and> b)"
| "cell_less v w = False"

definition min_cell :: "cell \<Rightarrow> cell \<Rightarrow> cell" where
  "min_cell a b = (if cell_less b a then b else a)"

text \<open>
  \<open>x.mode()[0]\<close>: the most frequent of the cells that are not missing, the smallest of
  them on a tie. A group whose cells are all missing has an empty mode, and taking its
  first entry raises.
\<close>

definition mode0 :: "cell list \<Rightarrow> error + cell" where
  "mode0 vs =
     (if list_ex is_text vs then Inl TypeError
      else (let qs = filter is_number vs;
                m = fold max (map (count_list qs) qs) 0
            in (case filter (\<lambda>q. count_list qs q = m) qs of
                  [] \<Rightarrow> Inl KeyError
                | c # cs \<Rightarrow> Inr (fold min_cell cs c))))"

text \<open>\<open>astype('int')\<close> cuts the fraction off, towards zero, and raises on a cell that
  is missing or infinite.\<close>

definition astype_int :: "rat \<Rightarrow> rat" where
  "astype_int q = of_int (if 0 \<le> q then \<lfloor>q\<rfloor> else \<lceil>q\<rceil>)"

definition fill_speed_limit :: "table \<Rightarrow> error + table" where
  \<comment> \<open>\<open>roadway.groupby('RDWY_COUNTY',sort=False)['SPEED_LIMIT']
        .apply(lambda x: x.fillna(x.mode()[0])).astype('int').droplevel(0)\<close>,
      assigned back by index label: a row without county is in no group and gets no value\<close>
  "fill_speed_limit roadway =
     traverse (\<lambda>s. if isna (col s ''RDWY_COUNTY'') then Inr (s(''SPEED_LIMIT'' \<mapsto> NA))
                   else and_then
                          (mode0 (group_values ''RDWY_COUNTY'' ''SPEED_LIMIT'' roadway
                                    (col s ''RDWY_COUNTY'')))
                          (\<lambda>m. case fillna m (col s ''SPEED_LIMIT'') of
                                  Num q \<Rightarrow> Inr (s(''SPEED_LIMIT'' \<mapsto> Num (astype_int q)))
                                | _ \<Rightarrow> Inl ValueError)) roadway"

text \<open>\<open>min\<close> of a group skips missing cells and is missing when nothing is left.\<close>

definition min_cells :: "cell list \<Rightarrow> cell" where
  "min_cells vs = (case filter is_number vs of [] \<Rightarrow> NA | q # qs \<Rightarrow> fold min_cell qs q)"

definition min_speed_by_CRN :: "table \<Rightarrow> table" where
  \<comment> \<open>\<open>pd.DataFrame(roadway.groupby('CRN').min().SPEED_LIMIT)\<close>: one row for each
      CRN that is not missing\<close>
  "min_speed_by_CRN roadway =
     map (\<lambda>k. [''CRN'' \<mapsto> k, ''SPEED_LIMIT'' \<mapsto> min_cells (group_values ''CRN'' ''SPEED_LIMIT'' roadway k)])
       (remdups (filter (\<lambda>k. \<not> isna k) (map (\<lambda>s. col s ''CRN'') roadway)))"

section \<open>Merging\<close>

text \<open>\<open>df[cols]\<close>: the table with exactly the listed columns.\<close>

definition select_cols :: "string list \<Rightarrow> row \<Rightarrow> row" where
  "select_cols cs r = (\<lambda>c. if c \<in> set cs then Some (col r c) else None)"

text \<open>
  \<open>left.merge(right, on=keys, how='left')\<close>: every left row, in order, once for each
  right row with the same key cells (missing cells match each other), with the columns of
  that right row added; a left row with no such right row stays once, missing in the
  columns of the right table. \<open>right_cols\<close> names those columns where the source fixes
  them. pandas renames a column that both tables carry outside the keys; the tables of this
  program have none, and here the cell of the right row stands.
\<close>

definition merge_left :: "string list \<Rightarrow> string list \<Rightarrow> table \<Rightarrow> table \<Rightarrow> table" where
  "merge_left keys right_cols left right =
     concat (map (\<lambda>l. case filter (\<lambda>m. map (col m) keys = map (col l) keys) right of
                          [] \<Rightarrow> [l ++ select_cols (filter (\<lambda>c. c \<notin> set keys) right_cols) Map.empty]
                        | m # ms \<Rightarrow> map (\<lambda>m. l ++ m) (m # ms)) left)"

section \<open>The crashes cell\<close>

definition clean_crashes :: "table \<Rightarrow> table \<Rightarrow> error + table" where
  "clean_crashes crashes roadway =
     and_then (traverse (\<lambda>r. and_then (presence_flags (recode_crash r))
                                (\<lambda>r. Inr (consolidate_weather r))) crashes) (\<lambda>t.
     and_then (fill_coordinates (fix_coordinates t)) (\<lambda>t.
     and_then (traverse fill_hour t) (\<lambda>t.
     and_then (fill_speed_limit roadway) (\<lambda>roadway.
     Inr (merge_left [''CRN''] [''CRN'', ''SPEED_LIMIT''] (map finish_crash t)
            (min_speed_by_CRN roadway))))))"

section \<open>The merged cyclists table\<close>

definition person_cols :: "string list" where
  "person_cols = [''CRN'', ''UNIT_NUM'', ''INJ_SEVERITY'', ''PERSON_TYPE'',
     ''AGE'', ''SEX'', ''RESTRAINT_HELMET'']"

definition crash_cols :: "string list" where
  "crash_cols = [''CRN'', ''COUNTY'', ''MUNICIPALITY'', ''BUS_COUNT'', ''COMM_VEH_COUNT'',
     ''HEAVY_TRUCK_COUNT'', ''SMALL_TRUCK_COUNT'', ''SUV_COUNT'', ''VAN_COUNT'',
     ''CRASH_MONTH'', ''CRASH_YEAR'', ''DAY_OF_WEEK'', ''HOUR_OF_DAY'',
     ''COLLISION_TYPE'', ''ILLUMINATION'', ''INTERSECT_TYPE'', ''LOCATION_TYPE'',
     ''RELATION_TO_ROAD'', ''ROAD_CONDITION'', ''TCD_TYPE'', ''TCD_FUNC_CD'',
     ''URBAN_RURAL'', ''WEATHER'', ''AGGRESSIVE_DRIVING'', ''ANGLE_CRASH'',
     ''CELL_PHONE'', ''COMM_VEHICLE'', ''CROSS_MEDIAN'', ''CURVED_ROAD'',
     ''CURVE_DVR_ERROR'', ''DRUG_RELATED'', ''ALCOHOL_RELATED'',
     ''DISTRACTED'', ''DRINKING_DRIVER'', ''DRUGGED_DRIVER'', ''FATIGUE_ASLEEP'', ''HO_OPPDIR_SDSWP'',
     ''ICY_ROAD'', ''ILLUMINATION_DARK'', ''IMPAIRED_DRIVER'', ''INTERSECTION'',
     ''LANE_DEPARTURE'', ''NHTSA_AGG_DRIVING'', ''NO_CLEARANCE'', ''NON_INTERSECTION'', ''REAR_END'',
     ''RUNNING_RED_LT'', ''RUNNING_STOP_SIGN'', ''RURAL'', ''SNOW_SLUSH_ROAD'',
     ''SPEEDING'', ''SPEEDING_RELATED'', ''SUDDEN_DEER'', ''TAILGATING'', ''URBAN'',
     ''WET_ROAD'', ''WORK_ZONE'', ''MATURE_DRIVER'', ''YOUNG_DRIVER'', ''BUS'',
     ''HEAVY_TRUCK'', ''SMALL_TRUCK'', ''SUV'', ''VAN'', ''SPEED_LIMIT'']"

definition join_cyclists :: "table \<Rightarrow> table \<Rightarrow> table \<Rightarrow> table" where
  "join_cyclists persons bicycles crashes =
     (let cyclists = merge_left [''CRN'', ''UNIT_NUM''] []
                        (map (select_cols person_cols) persons) bicycles;
          cyclists = filter (\<lambda>r. \<not> isna (col r ''VEH_TYPE'')) cyclists;
          cyclists = map (drop_cols [''VEH_TYPE''])
                       (merge_left [''CRN''] crash_cols cyclists (map (select_cols crash_cols) crashes))
      in cyclists)"

section \<open>Missing data in cyclists, the injury flag and the age bins\<close>

definition infer_WEATHER :: "row \<Rightarrow> row" where
  "infer_WEATHER r =
     (if cell_eq (col r ''ROAD_CONDITION'') (Str ''dry'') \<and> isna (col r ''WEATHER'')
      then r(''WEATHER'' \<mapsto> Str ''clear'') else r)"

definition infer_ROAD_CONDITION :: "row \<Rightarrow> row" where
  "infer_ROAD_CONDITION r =
     (if cell_eq (col r ''WEATHER'') (Str ''rain'') \<and> isna (col r ''ROAD_CONDITION'')
      then r(''ROAD_CONDITION'' \<mapsto> Str ''wet'') else r)"

definition SERIOUS_OR_FATALITY :: "cell \<Rightarrow> cell" where
  \<comment> \<open>\<open>lambda x: 1 if x in ['killed','susp_serious_injury'] else 0\<close>\<close>
  "SERIOUS_OR_FATALITY x =
     (if List.member [Str ''killed'', Str ''susp_serious_injury''] x then Num 1 else Num 0)"

text \<open>Decimal numerals, as \<open>str\<close> prints the bounds of an interval.\<close>

definition digit_char :: "nat \<Rightarrow> char" where
  "digit_char d = ''0123456789'' ! d"

function string_of_nat :: "nat \<Rightarrow> string" where
  "string_of_nat n =
     (if n < 10 then [digit_char n] else string_of_nat (n div 10) @ [digit_char (n mod 10)])"
  by pat_completeness auto
termination
  by (relation "measure id") auto

declare string_of_nat.simps [simp del]

text \<open>
  \<open>pd.cut(cyclists.AGE, bins=range(0,101,10))\<close>: the bins are the intervals between
  neighbouring edges, open on the left and closed on the right. A value in no bin, and a
  missing value, has no interval; text raises. \<open>astype('str')\<close> then prints the interval,
  and prints \<open>nan\<close> where there is none.
\<close>

definition bin_edges :: "nat list" where
  "bin_edges = [0, 10, 20, 30, 40, 50, 60, 70, 80, 90, 100]"

definition bins :: "(nat \<times> nat) list" where
  "bins = zip (butlast bin_edges) (tl bin_edges)"

fun cut :: "cell \<Rightarrow> error + (nat \<times> nat) option" where
  "cut (Num a) = Inr (find (\<lambda>(lo, hi). of_nat lo < a \<and> a \<le> of_nat hi) bins)"
| "cut (Infty b) = Inr None"
| "cut NA = Inr None"
| "cut (Str s) = Inl TypeError"

fun astype_str :: "(nat \<times> nat) option \<Rightarrow> cell" where
  "astype_str None = Str ''nan''"
| "astype_str (Some (lo, hi)) = Str (''('' @ string_of_nat lo @ '', '' @ string_of_nat hi @ '']'')"

definition derive_cyclist :: "row \<Rightarrow> error + row" where
  "derive_cyclist r =
     (let r = infer_WEATHER r;
          r = infer_ROAD_CONDITION r;
          r = fold (\<lambda>feature. fillna_col feature (Str ''unknown''))
                [''RESTRAINT_HELMET'', ''IMPACT_SIDE'', ''GRADE'', ''VEH_POSITION''] r;
          r = r(''SERIOUS_OR_FATALITY'' \<mapsto> SERIOUS_OR_FATALITY (col r ''INJ_SEVERITY''))
      in and_then (cut (col r ''AGE'')) (\<lambda>b. Inr (r(''AGE_BINS'' \<mapsto> astype_str b))))"

section \<open>The whole run\<close>

record raw_files =
  bicycles_raw :: table
  persons_raw :: table
  crashes_raw :: table
  roadway_raw :: table

record exported =
  cyclists_csv :: table
  crashes_csv :: table

definition pipeline :: "raw_files \<Rightarrow> error + exported" where
  "pipeline inp =
     (let bicycles = clean_bicycles (bicycles_raw inp);
          persons = clean_persons (persons_raw inp)
      in and_then (clean_crashes (crashes_raw inp) (roadway_raw inp)) (\<lambda>crashes.
         and_then (traverse derive_cyclist (join_cyclists persons bicycles crashes)) (\<lambda>cyclists.
         Inr \<lparr>cyclists_csv = cyclists, crashes_csv = crashes\<rparr>)))"


section \<open>Notions used in the statements\<close>

text \<open>A dictionary none of whose values is a key replaces once and for all.\<close>

definition settled :: "(cell \<times> cell) list \<Rightarrow> bool" where
  "settled d = list_all (\<lambda>(k, v). map_of d v = None) d"

text \<open>The CRNs that have a row in the aggregated roadway table, and the limit found there.\<close>

definition CRNs :: "table \<Rightarrow> cell list" where
  "CRNs roadway = remdups (filter (\<lambda>k. \<not> isna k) (map (\<lambda>s. col s ''CRN'') roadway))"

definition speed_of_CRN :: "table \<Rightarrow> cell \<Rightarrow> cell" where
  "speed_of_CRN roadway k =
     (if k \<in> set (CRNs roadway) then min_cells (group_values ''CRN'' ''SPEED_LIMIT'' roadway k) else NA)"


text \<open>
  A dictionary is unreadable when none of its text labels reads as a number; a token whose
  first character is neither blank, digit, sign, point nor the first letter of \<open>inf\<close>
  is such a label.
\<close>

definition unreadable :: "(cell \<times> cell) list \<Rightarrow> bool" where
  "unreadable d = list_all (\<lambda>(k, w). is_text w \<longrightarrow> to_numeric w = NA) d"

definition word_start :: "char \<Rightarrow> bool" where
  "word_start c = (\<not> is_space c \<and> digit_val c = None \<and> c \<notin> set ''-+.iI'')"

text \<open>The dictionary that the persons cell applies to SEX, TRANSPORTED and UNIT_NUM.\<close>

definition yn_codes :: "(cell \<times> cell) list" where
  "yn_codes = [(Str ''Y'', Num 1), (Str ''N'', Num 0), (Str ''U'', NA),
     (Str ''0'', Num 0), (Str '' '', NA), (Str ''R'', NA), (Str ''9'', NA), (Num 97, NA)]"

text \<open>The fills of the cyclists cell that come before the injury flag.\<close>

definition fill_unknown :: "row \<Rightarrow> row" where
  "fill_unknown r = fold (\<lambda>feature. fillna_col feature (Str ''unknown''))
     [''RESTRAINT_HELMET'', ''IMPACT_SIDE'', ''GRADE'', ''VEH_POSITION'']
     (infer_ROAD_CONDITION (infer_WEATHER r))"


section \<open>A small run\<close>

text \<open>
  One cyclist in one crash with two roadway segments, and what the cells of the program
  make of these files.
\<close>

definition example_bicycles :: table where
  "example_bicycles =
     [row_of [(''CRN'', Num 1), (''UNIT_NUM'', Num 1), (''VEH_TYPE'', Num 20), (''IMPACT_POINT'', Num 12)]]"

definition example_persons :: table where
  "example_persons =
     [row_of [(''CRN'', Num 1), (''UNIT_NUM'', Num 1), (''INJ_SEVERITY'', Num 1), (''AGE'', Num 34)]]"

definition example_crashes :: table where
  "example_crashes =
     [row_of [(''CRN'', Num 1), (''COUNTY'', Num 67), (''MUNICIPALITY'', Num 67301),
              (''WEATHER1'', Num 3), (''WEATHER2'', Num 7), (''TIME_OF_DAY'', Num 1430)]]"

definition example_roadway :: table where
  "example_roadway =
     [row_of [(''CRN'', Num 1), (''RDWY_COUNTY'', Num 67), (''SPEED_LIMIT'', Num 25)],
      row_of [(''CRN'', Num 1), (''RDWY_COUNTY'', Num 67), (''SPEED_LIMIT'', Num 35)]]"

definition example_files :: raw_files where
  "example_files = \<lparr>bicycles_raw = example_bicycles, persons_raw = example_persons,
     crashes_raw = example_crashes, roadway_raw = example_roadway\<rparr>"

definition example_cleaned_bicycles :: table where
  "example_cleaned_bicycles =
     [row_of [(''CRN'', Num 1), (''UNIT_NUM'', Num 1),
        (''VEH_TYPE'', Str ''bicycle''), (''IMPACT_POINT'', Num 12),
        (''RDWY_ALIGNMENT'', NA), (''VEH_MOVEMENT'', NA),
        (''VEH_POSITION'', NA), (''VEH_ROLE'', Str ''non_collision''),
        (''PC_HDLGHT_IND'', NA), (''PC_HLMT_IND'', NA),
        (''PC_REAR_RFLTR_IND'', NA), (''GRADE'', NA),
        (''IMPACT_SIDE'', Str ''front'')]]"

definition example_cleaned_persons :: table where
  "example_cleaned_persons =
     [row_of [(''CRN'', Num 1), (''UNIT_NUM'', Num 1),
        (''INJ_SEVERITY'', Str ''killed''), (''AGE'', Num 34), (''SEX'', NA),
        (''TRANSPORTED'', NA), (''PERSON_TYPE'', NA),
        (''RESTRAINT_HELMET'', NA)],
      row_of [(''UNIT_NUM'', Num 2)]]"

definition example_cleaned_crashes :: table where
  "example_cleaned_crashes =
     [row_of
           [(''CRN'', Num 1), (''SPEED_LIMIT'', Num 25), (''CRN'', Num 1),
            (''COUNTY'', Num 67), (''MUNICIPALITY'', Num 67301),
            (''TIME_OF_DAY'', Num 1430), (''HOUR_OF_DAY'', Num 14),
            (''COLLISION_TYPE'', NA), (''ILLUMINATION'', Str ''daylight''),
            (''ROAD_CONDITION'', NA), (''URBAN_RURAL'', NA),
            (''INTERSECT_TYPE'', NA), (''LOCATION_TYPE'', NA),
            (''RELATION_TO_ROAD'', NA), (''TCD_TYPE'', NA),
            (''TCD_FUNC_CD'', NA), (''BUS'', NA), (''HEAVY_TRUCK'', NA),
            (''SMALL_TRUCK'', NA), (''SUV'', NA), (''VAN'', NA),
            (''WEATHER'', Str ''rain''), (''DEC_LAT'', NA),
            (''DEC_LONG'', NA)],
          row_of
           [(''SPEED_LIMIT'', NA), (''DEC_LAT'', NA), (''DEC_LONG'', NA),
            (''HOUR_OF_DAY'', NA), (''ILLUMINATION'', Str ''daylight'')],
          row_of
           [(''SPEED_LIMIT'', NA), (''DEC_LAT'', NA), (''DEC_LONG'', NA),
            (''HOUR_OF_DAY'', NA), (''ILLUMINATION'', Str ''daylight'')],
          row_of
           [(''SPEED_LIMIT'', NA), (''DEC_LAT'', NA), (''DEC_LONG'', NA),
            (''HOUR_OF_DAY'', NA), (''ILLUMINATION'', Str ''daylight'')]]"

definition example_joined :: table where
  "example_joined = [row_of
      [(''CRN'', Num 1), (''COUNTY'', Num 67),
       (''MUNICIPALITY'', Num 67301), (''BUS_COUNT'', NA),
       (''COMM_VEH_COUNT'', NA), (''HEAVY_TRUCK_COUNT'', NA),
       (''SMALL_TRUCK_COUNT'', NA), (''SUV_COUNT'', NA),
       (''VAN_COUNT'', NA), (''CRASH_MONTH'', NA), (''CRASH_YEAR'', NA),
       (''DAY_OF_WEEK'', NA), (''HOUR_OF_DAY'', Num 14),
       (''COLLISION_TYPE'', NA), (''ILLUMINATION'', Str ''daylight''),
       (''INTERSECT_TYPE'', NA), (''LOCATION_TYPE'', NA),
       (''RELATION_TO_ROAD'', NA), (''ROAD_CONDITION'', NA),
       (''TCD_TYPE'', NA), (''TCD_FUNC_CD'', NA), (''URBAN_RURAL'', NA),
       (''WEATHER'', Str ''rain''), (''AGGRESSIVE_DRIVING'', NA),
       (''ANGLE_CRASH'', NA), (''CELL_PHONE'', NA), (''COMM_VEHICLE'', NA),
       (''CROSS_MEDIAN'', NA), (''CURVED_ROAD'', NA),
       (''CURVE_DVR_ERROR'', NA), (''DRUG_RELATED'', NA),
       (''ALCOHOL_RELATED'', NA), (''DISTRACTED'', NA),
       (''DRINKING_DRIVER'', NA), (''DRUGGED_DRIVER'', NA),
       (''FATIGUE_ASLEEP'', NA), (''HO_OPPDIR_SDSWP'', NA),
       (''ICY_ROAD'', NA), (''ILLUMINATION_DARK'', NA),
       (''IMPAIRED_DRIVER'', NA), (''INTERSECTION'', NA),
       (''LANE_DEPARTURE'', NA), (''NHTSA_AGG_DRIVING'', NA),
       (''NO_CLEARANCE'', NA), (''NON_INTERSECTION'', NA),
       (''REAR_END'', NA), (''RUNNING_RED_LT'', NA),
       (''RUNNING_STOP_SIGN'', NA), (''RURAL'', NA),
       (''SNOW_SLUSH_ROAD'', NA), (''SPEEDING'', NA),
       (''SPEEDING_RELATED'', NA), (''SUDDEN_DEER'', NA),
       (''TAILGATING'', NA), (''URBAN'', NA), (''WET_ROAD'', NA),
       (''WORK_ZONE'', NA), (''MATURE_DRIVER'', NA), (''YOUNG_DRIVER'', NA),
       (''BUS'', NA), (''HEAVY_TRUCK'', NA), (''SMALL_TRUCK'', NA),
       (''SUV'', NA), (''VAN'', NA), (''SPEED_LIMIT'', Num 25),
       (''CRN'', Num 1), (''UNIT_NUM'', Num 1), (''IMPACT_POINT'', Num 12),
       (''RDWY_ALIGNMENT'', NA), (''VEH_MOVEMENT'', NA),
       (''VEH_POSITION'', NA), (''VEH_ROLE'', Str ''non_collision''),
       (''PC_HDLGHT_IND'', NA), (''PC_HLMT_IND'', NA),
       (''PC_REAR_RFLTR_IND'', NA), (''GRADE'', NA),
       (''IMPACT_SIDE'', Str ''front''), (''CRN'', Num 1),
       (''UNIT_NUM'', Num 1), (''INJ_SEVERITY'', Str ''killed''),
       (''PERSON_TYPE'', NA), (''AGE'', Num 34), (''SEX'', NA),
       (''RESTRAINT_HELMET'', NA)]]"

definition example_cyclists :: table where
  "example_cyclists = [row_of
      [(''CRN'', Num 1), (''COUNTY'', Num 67),
       (''MUNICIPALITY'', Num 67301), (''BUS_COUNT'', NA),
       (''COMM_VEH_COUNT'', NA), (''HEAVY_TRUCK_COUNT'', NA),
       (''SMALL_TRUCK_COUNT'', NA), (''SUV_COUNT'', NA),
       (''VAN_COUNT'', NA), (''CRASH_MONTH'', NA), (''CRASH_YEAR'', NA),
       (''DAY_OF_WEEK'', NA), (''HOUR_OF_DAY'', Num 14),
       (''COLLISION_TYPE'', NA), (''ILLUMINATION'', Str ''daylight''),
       (''INTERSECT_TYPE'', NA), (''LOCATION_TYPE'', NA),
       (''RELATION_TO_ROAD'', NA), (''ROAD_CONDITION'', Str ''wet''),
       (''TCD_TYPE'', NA), (''TCD_FUNC_CD'', NA), (''URBAN_RURAL'', NA),
       (''WEATHER'', Str ''rain''), (''AGGRESSIVE_DRIVING'', NA),
       (''ANGLE_CRASH'', NA), (''CELL_PHONE'', NA), (''COMM_VEHICLE'', NA),
       (''CROSS_MEDIAN'', NA), (''CURVED_ROAD'', NA),
       (''CURVE_DVR_ERROR'', NA), (''DRUG_RELATED'', NA),
       (''ALCOHOL_RELATED'', NA), (''DISTRACTED'', NA),
       (''DRINKING_DRIVER'', NA), (''DRUGGED_DRIVER'', NA),
       (''FATIGUE_ASLEEP'', NA), (''HO_OPPDIR_SDSWP'', NA),
       (''ICY_ROAD'', NA), (''ILLUMINATION_DARK'', NA),
       (''IMPAIRED_DRIVER'', NA), (''INTERSECTION'', NA),
       (''LANE_DEPARTURE'', NA), (''NHTSA_AGG_DRIVING'', NA),
       (''NO_CLEARANCE'', NA), (''NON_INTERSECTION'', NA),
       (''REAR_END'', NA), (''RUNNING_RED_LT'', NA),
       (''RUNNING_STOP_SIGN'', NA), (''RURAL'', NA),
       (''SNOW_SLUSH_ROAD'', NA), (''SPEEDING'', NA),
       (''SPEEDING_RELATED'', NA), (''SUDDEN_DEER'', NA),
       (''TAILGATING'', NA), (''URBAN'', NA), (''WET_ROAD'', NA),
       (''WORK_ZONE'', NA), (''MATURE_DRIVER'', NA), (''YOUNG_DRIVER'', NA),
       (''BUS'', NA), (''HEAVY_TRUCK'', NA), (''SMALL_TRUCK'', NA),
       (''SUV'', NA), (''VAN'', NA), (''SPEED_LIMIT'', Num 25),
       (''CRN'', Num 1), (''UNIT_NUM'', Num 1), (''IMPACT_POINT'', Num 12),
       (''RDWY_ALIGNMENT'', NA), (''VEH_MOVEMENT'', NA),
       (''VEH_POSITION'', Str ''unknown''), (''VEH_ROLE'', Str ''non_collision''),
       (''PC_HDLGHT_IND'', NA), (''PC_HLMT_IND'', NA),
       (''PC_REAR_RFLTR_IND'', NA), (''GRADE'', Str ''unknown''),
       (''IMPACT_SIDE'', Str ''front''), (''CRN'', Num 1),
       (''UNIT_NUM'', Num 1), (''INJ_SEVERITY'', Str ''killed''),
       (''PERSON_TYPE'', NA), (''AGE'', Num 34), (''SEX'', NA),
       (''RESTRAINT_HELMET'', Str ''unknown''),
       (''SERIOUS_OR_FATALITY'', Num 1), (''AGE_BINS'', Str ''(30, 40]'')]]"

definition example_exported :: exported where
  "example_exported = \<lparr>cyclists_csv = example_cyclists, crashes_csv = example_cleaned_crashes\<rparr>"


section \<open>Reading a column after a statement\<close>

lemma col_upd: "col (r(c \<mapsto> v)) c' = (if c' = c then v else col r c')"
  by (simp add: col_def)
lemma col_del: "col (r(c := None)) c' = (if c' = c then NA else col r c')"
  by (simp add: col_def)
lemma col_empty: "col Map.empty c = NA"
  by (simp add: col_def)
lemma col_to_numeric_col:
  "col (to_numeric_col c r) c' = (if c' = c then to_numeric (col r c) else col r c')"
  by (simp add: to_numeric_col_def col_upd)
lemma col_replace_col:
  "col (replace_col d c r) c' = (if c' = c then replace d (col r c) else col r c')"
  by (simp add: replace_col_def col_upd)
lemma col_replace_into:
  "col (replace_into dst src d r) c' = (if c' = dst then replace d (col r src) else col r c')"
  by (simp add: replace_into_def col_upd)
lemma col_fillna_col:
  "col (fillna_col c w r) c' = (if c' = c then fillna w (col r c) else col r c')"
  by (simp add: fillna_col_def col_upd)
lemma col_fill_WEATHER1:
  "col (fill_WEATHER1 r) c' =
     (if c' = ''WEATHER1'' then fillna (col r ''WEATHER2'') (col r ''WEATHER1'') else col r c')"
  by (simp add: fill_WEATHER1_def col_upd)
lemma col_clear_WEATHER2:
  "col (clear_WEATHER2 r) c' =
     (if c' = ''WEATHER2'' \<and> cell_eq (col r ''WEATHER1'') (col r ''WEATHER2'') then NA else col r c')"
  by (simp add: clear_WEATHER2_def col_upd)
lemma col_prefer_WEATHER2:
  "col (prefer_WEATHER2 r) c' =
     (if c' = ''WEATHER1''
      then (if col r ''WEATHER1'' \<noteq> Num 3 \<or> isna (col r ''WEATHER2'') then col r ''WEATHER1''
            else col r ''WEATHER2'')
      else col r c')"
  by (simp add: prefer_WEATHER2_def col_upd)
lemma col_rename_col:
  "col (rename_col old new r) c' = (if c' = old then NA else if c' = new then col r old else col r c')"
  by (simp add: rename_col_def col_def)
lemma col_drop_cols: "col (drop_cols cs r) c' = (if c' \<in> set cs then NA else col r c')"
  unfolding drop_cols_def by (induction cs arbitrary: r) (auto simp: col_del)
lemma col_select_cols: "col (select_cols cs r) c' = (if c' \<in> set cs then col r c' else NA)"
  by (simp add: select_cols_def col_def)
lemma col_map_add: "col (l ++ m) c = (if m c = None then col l c else col m c)"
  by (auto simp: col_def map_add_def split: option.splits)
lemma col_infer_WEATHER:
  "col (infer_WEATHER r) c' =
     (if c' = ''WEATHER'' \<and> cell_eq (col r ''ROAD_CONDITION'') (Str ''dry'') \<and> isna (col r ''WEATHER'')
      then Str ''clear'' else col r c')"
  by (simp add: infer_WEATHER_def col_upd)
lemma col_infer_ROAD_CONDITION:
  "col (infer_ROAD_CONDITION r) c' =
     (if c' = ''ROAD_CONDITION'' \<and> cell_eq (col r ''WEATHER'') (Str ''rain'') \<and> isna (col r ''ROAD_CONDITION'')
      then Str ''wet'' else col r c')"
  by (simp add: infer_ROAD_CONDITION_def col_upd)

lemmas col_simps = col_upd col_del col_empty col_to_numeric_col col_replace_col col_replace_into
  col_fillna_col col_fill_WEATHER1 col_clear_WEATHER2 col_prefer_WEATHER2 col_rename_col
  col_drop_cols col_select_cols col_map_add col_infer_WEATHER col_infer_ROAD_CONDITION

section \<open>Failing statements in sequence\<close>

lemma and_then_Inr [simp]: "and_then (Inr v) f = f v"
  by (simp add: and_then_def)
lemma and_then_Inl [simp]: "and_then (Inl e) f = Inl e"
  by (simp add: and_then_def)
lemma and_then_eq_Inr: "and_then x f = Inr y \<longleftrightarrow> (\<exists>v. x = Inr v \<and> f v = Inr y)"
  by (cases x) auto

lemma traverse_length: "traverse f xs = Inr ys \<Longrightarrow> length ys = length xs"
  by (induction xs arbitrary: ys) (auto split: sum.splits)

lemma traverse_nth: "traverse f xs = Inr ys \<Longrightarrow> i < length xs \<Longrightarrow> f (xs ! i) = Inr (ys ! i)"
proof (induction xs arbitrary: ys i)
  case Nil
  then show ?case by simp
next
  case (Cons x xs)
  then show ?case by (cases i) (auto split: sum.splits)
qed

lemma traverse_set: "traverse f xs = Inr ys \<Longrightarrow> y \<in> set ys \<Longrightarrow> \<exists>x\<in>set xs. f x = Inr y"
  by (induction xs arbitrary: ys) (auto split: sum.splits)

lemma traverse_total: "(\<And>x. x \<in> set xs \<Longrightarrow> \<exists>y. f x = Inr y) \<Longrightarrow> \<exists>ys. traverse f xs = Inr ys"
proof (induction xs)
  case Nil
  then show ?case by simp
next
  case (Cons x xs)
  then obtain y ys where "f x = Inr y" "traverse f xs = Inr ys"
    by (metis list.set_intros)
  then show ?case by simp
qed

section \<open>Writing by index label\<close>

lemma set_at_length: "length t \<le> length (set_at l c v t)"
  by (simp add: set_at_def)

lemma set_at_nth:
  assumes "i < length t"
  shows "fst (set_at l c v t ! i) = fst (t ! i)"
    and "c' \<noteq> c \<Longrightarrow> snd (set_at l c v t ! i) c' = snd (t ! i) c'"
  using assms by (auto simp: set_at_def nth_append split: prod.splits)

lemma fix_coordinates_nth:
  assumes "i < length t"
  shows "i < length (fix_coordinates t)"
    and "c \<noteq> ''DEC_LAT'' \<Longrightarrow> c \<noteq> ''DEC_LONG'' \<Longrightarrow> (fix_coordinates t ! i) c = (t ! i) c"
proof -
  define t0 where "t0 = with_index t"
  define t1 where "t1 = set_at 24770 ''DEC_LAT'' NA t0"
  define t2 where "t2 = set_at 24770 ''DEC_LONG'' NA t1"
  define t3 where "t3 = set_at 3087 ''DEC_LAT'' (Num (400081 / 10000)) t2"
  define t4 where "t4 = set_at 3087 ''DEC_LONG'' (Num (- 751923 / 10000)) t3"
  define t5 where "t5 = set_at 24805 ''DEC_LAT'' (Num (403322 / 10000)) t4"
  define t6 where "t6 = set_at 24805 ''DEC_LONG'' (Num (- 759278 / 10000)) t5"
  have fc: "fix_coordinates t = map snd t6"
    by (simp add: fix_coordinates_def Let_def t0_def t1_def t2_def t3_def t4_def t5_def t6_def)
  have l0: "i < length t0" and n0: "snd (t0 ! i) = t ! i"
    using assms by (simp_all add: t0_def with_index_def)
  have l1: "i < length t1" using l0 set_at_length [of t0] by (simp add: t1_def order_less_le_trans)
  have l2: "i < length t2" using l1 set_at_length [of t1] by (simp add: t2_def order_less_le_trans)
  have l3: "i < length t3" using l2 set_at_length [of t2] by (simp add: t3_def order_less_le_trans)
  have l4: "i < length t4" using l3 set_at_length [of t3] by (simp add: t4_def order_less_le_trans)
  have l5: "i < length t5" using l4 set_at_length [of t4] by (simp add: t5_def order_less_le_trans)
  have l6: "i < length t6" using l5 set_at_length [of t5] by (simp add: t6_def order_less_le_trans)
  show "i < length (fix_coordinates t)" using l6 by (simp add: fc)
  assume c: "c \<noteq> ''DEC_LAT''" "c \<noteq> ''DEC_LONG''"
  have "snd (t6 ! i) c = snd (t0 ! i) c"
    unfolding t6_def t5_def t4_def t3_def t2_def t1_def
    using c l0 l1 l2 l3 l4 l5
    by (simp add: set_at_nth(2) t1_def t2_def t3_def t4_def t5_def)
  then show "(fix_coordinates t ! i) c = (t ! i) c"
    using l6 n0 by (simp add: fc)
qed

section \<open>Group fills\<close>

lemma fill_group_mean_nth:
  assumes "fill_group_mean coord area t = Inr t'"
  shows "length t' = length t"
    and "i < length t \<Longrightarrow> c \<noteq> coord \<Longrightarrow> (t' ! i) c = (t ! i) c"
proof -
  show "length t' = length t" using assms unfolding fill_group_mean_def by (rule traverse_length)
  assume "i < length t" "c \<noteq> coord"
  from traverse_nth [OF assms [unfolded fill_group_mean_def] this(1)]
  have "\<exists>w. (t ! i)(coord \<mapsto> w) = t' ! i"
    by (auto simp: and_then_eq_Inr split: if_splits)
  then obtain w where "t' ! i = (t ! i)(coord \<mapsto> w)"
    by metis
  with \<open>c \<noteq> coord\<close> show "(t' ! i) c = (t ! i) c"
    by simp
qed

lemma fill_coordinates_nth:
  assumes "fill_coordinates t = Inr t'"
  shows "length t' = length t"
    and "i < length t \<Longrightarrow> c \<noteq> ''DEC_LAT'' \<Longrightarrow> c \<noteq> ''DEC_LONG'' \<Longrightarrow> (t' ! i) c = (t ! i) c"
proof -
  from assms obtain t1 t2 t3 where
    s: "fill_group_mean ''DEC_LAT'' ''MUNICIPALITY'' t = Inr t1"
       "fill_group_mean ''DEC_LAT'' ''COUNTY'' t1 = Inr t2"
       "fill_group_mean ''DEC_LONG'' ''MUNICIPALITY'' t2 = Inr t3"
       "fill_group_mean ''DEC_LONG'' ''COUNTY'' t3 = Inr t'"
    by (auto simp: fill_coordinates_def and_then_eq_Inr)
  show "length t' = length t"
    using s by (simp add: fill_group_mean_nth(1))
  assume "i < length t" "c \<noteq> ''DEC_LAT''" "c \<noteq> ''DEC_LONG''"
  then show "(t' ! i) c = (t ! i) c"
    using s by (simp add: fill_group_mean_nth)
qed

section \<open>Hour of day\<close>

lemma fill_hour_from_eq:
  "fill_hour_from src r = Inr r' \<longleftrightarrow>
     (\<exists>h. floordiv (col r src) 100 = Inr h \<and> r' = r(''HOUR_OF_DAY'' \<mapsto> fillna h (col r ''HOUR_OF_DAY'')))"
  by (auto simp: fill_hour_from_def and_then_eq_Inr)

lemma fill_hour_eq:
  "fill_hour r = Inr r' \<longleftrightarrow>
     (\<exists>h1 h2 h3. floordiv (col r ''TIME_OF_DAY'') 100 = Inr h1 \<and>
        floordiv (col r ''DISPATCH_TM'') 100 = Inr h2 \<and>
        floordiv (col r ''ARRIVAL_TM'') 100 = Inr h3 \<and>
        r' = r(''HOUR_OF_DAY'' \<mapsto> fillna h3 (fillna h2 (fillna h1 (col r ''HOUR_OF_DAY'')))))"
  by (auto simp: fill_hour_def and_then_eq_Inr fill_hour_from_eq col_upd)

lemma fill_hour_other: "fill_hour r = Inr r' \<Longrightarrow> c \<noteq> ''HOUR_OF_DAY'' \<Longrightarrow> r' c = r c"
  by (auto simp: fill_hour_eq)

section \<open>Presence flags\<close>

lemma presence_col_eq:
  "presence_col feat r = Inr r' \<longleftrightarrow> (\<exists>v. presence (col r (feat @ ''_COUNT'')) = Inr v \<and> r' = r(feat \<mapsto> v))"
  by (auto simp: presence_col_def and_then_eq_Inr)

lemma presence_flags_other:
  assumes "presence_flags r = Inr r'"
    and "c \<notin> {''BUS'', ''HEAVY_TRUCK'', ''SMALL_TRUCK'', ''SUV'', ''VAN''}"
  shows "r' c = r c"
  using assms by (auto simp: presence_flags_def and_then_eq_Inr presence_col_eq)

section \<open>Merging with a table of distinct keys\<close>

lemma filter_eq_distinct: "distinct xs \<Longrightarrow> filter (\<lambda>x. x = k) xs = (if k \<in> set xs then [k] else [])"
  by (induction xs) auto

lemma concat_map_single: "(\<And>x. x \<in> set xs \<Longrightarrow> f x = [g x]) \<Longrightarrow> concat (map f xs) = map g xs"
  by (induction xs) auto

lemma merge_left_unique:
  assumes "\<And>l. l \<in> set left \<Longrightarrow> length (filter (\<lambda>m. map (col m) keys = map (col l) keys) right) \<le> 1"
  shows "merge_left keys right_cols left right =
     map (\<lambda>l. case filter (\<lambda>m. map (col m) keys = map (col l) keys) right of
                 [] \<Rightarrow> l ++ select_cols (filter (\<lambda>c. c \<notin> set keys) right_cols) Map.empty
               | m # ms \<Rightarrow> l ++ m) left"
  unfolding merge_left_def
proof (rule concat_map_single)
  fix l assume "l \<in> set left"
  from assms [OF this]
  show "(case filter (\<lambda>m. map (col m) keys = map (col l) keys) right of
           [] \<Rightarrow> [l ++ select_cols (filter (\<lambda>c. c \<notin> set keys) right_cols) Map.empty]
         | m # ms \<Rightarrow> map (\<lambda>m. l ++ m) (m # ms)) =
        [case filter (\<lambda>m. map (col m) keys = map (col l) keys) right of
           [] \<Rightarrow> l ++ select_cols (filter (\<lambda>c. c \<notin> set keys) right_cols) Map.empty
         | m # ms \<Rightarrow> l ++ m]"
    by (cases "filter (\<lambda>m. map (col m) keys = map (col l) keys) right") auto
qed

lemma matches_min_speed:
  "filter (\<lambda>m. map (col m) [''CRN''] = map (col l) [''CRN'']) (min_speed_by_CRN roadway) =
     (if col l ''CRN'' \<in> set (CRNs roadway)
      then [[''CRN'' \<mapsto> col l ''CRN'',
             ''SPEED_LIMIT'' \<mapsto> min_cells (group_values ''CRN'' ''SPEED_LIMIT'' roadway (col l ''CRN''))]]
      else [])"
proof -
  have "filter (\<lambda>m. map (col m) [''CRN''] = map (col l) [''CRN'']) (min_speed_by_CRN roadway) =
    map (\<lambda>k. [''CRN'' \<mapsto> k, ''SPEED_LIMIT'' \<mapsto> min_cells (group_values ''CRN'' ''SPEED_LIMIT'' roadway k)])
      (filter (\<lambda>k. k = col l ''CRN'') (CRNs roadway))"
    by (simp add: min_speed_by_CRN_def CRNs_def filter_map comp_def col_upd)
  also have "filter (\<lambda>k. k = col l ''CRN'') (CRNs roadway) =
      (if col l ''CRN'' \<in> set (CRNs roadway) then [col l ''CRN''] else [])"
    by (rule filter_eq_distinct) (simp add: CRNs_def)
  finally show ?thesis by (simp split: if_splits) (auto simp: fun_eq_iff)
qed

lemma merge_min_speed:
  "merge_left [''CRN''] [''CRN'', ''SPEED_LIMIT''] t (min_speed_by_CRN roadway) =
     map (\<lambda>l. if col l ''CRN'' \<in> set (CRNs roadway)
               then l ++ [''CRN'' \<mapsto> col l ''CRN'',
                          ''SPEED_LIMIT'' \<mapsto> min_cells (group_values ''CRN'' ''SPEED_LIMIT'' roadway (col l ''CRN''))]
               else l ++ select_cols [''SPEED_LIMIT''] Map.empty) t"
proof -
  have one: "length (filter (\<lambda>m. map (col m) [''CRN''] = map (col l) [''CRN'']) (min_speed_by_CRN roadway)) \<le> 1"
    for l
    unfolding matches_min_speed by simp
  have pad: "filter (\<lambda>c. c \<notin> set [''CRN'']) [''CRN'', ''SPEED_LIMIT''] = [''SPEED_LIMIT'']"
    by simp
  show ?thesis
    unfolding merge_left_unique [of t "[''CRN'']" "min_speed_by_CRN roadway", OF one] pad
      matches_min_speed
    by (rule map_cong [OF refl]) (simp split: if_splits)
qed

section \<open>The stages of the crashes cell\<close>

lemma clean_crashes_stages:
  assumes "clean_crashes cs rw = Inr out"
  obtains t1 t2 t3 rw' where
    "traverse (\<lambda>r. and_then (presence_flags (recode_crash r)) (\<lambda>r. Inr (consolidate_weather r))) cs = Inr t1"
    "fill_coordinates (fix_coordinates t1) = Inr t2"
    "traverse fill_hour t2 = Inr t3"
    "fill_speed_limit rw = Inr rw'"
    "out = merge_left [''CRN''] [''CRN'', ''SPEED_LIMIT''] (map finish_crash t3) (min_speed_by_CRN rw')"
  using assms unfolding clean_crashes_def and_then_eq_Inr by blast

lemma select_cols_None: "select_cols cs r c = None \<longleftrightarrow> c \<notin> set cs"
  by (simp add: select_cols_def)

lemma merged_speed_cols:
  assumes "out = merge_left [''CRN''] [''CRN'', ''SPEED_LIMIT''] t (min_speed_by_CRN rw')"
  shows "length out = length t"
    and "i < length t \<Longrightarrow> col (out ! i) c =
           (if c = ''SPEED_LIMIT'' then speed_of_CRN rw' (col (t ! i) ''CRN'') else col (t ! i) c)"
    and "i < length t \<Longrightarrow> c \<noteq> ''SPEED_LIMIT'' \<Longrightarrow> c \<noteq> ''CRN'' \<Longrightarrow> (out ! i) c = (t ! i) c"
proof -
  show "length out = length t"
    unfolding assms merge_min_speed by simp
  show "col (out ! i) c =
           (if c = ''SPEED_LIMIT'' then speed_of_CRN rw' (col (t ! i) ''CRN'') else col (t ! i) c)"
    if "i < length t"
    unfolding assms merge_min_speed using that
    by (simp add: col_map_add col_upd col_empty col_select_cols speed_of_CRN_def select_cols_None)
  show "(out ! i) c = (t ! i) c" if "i < length t" "c \<noteq> ''SPEED_LIMIT''" "c \<noteq> ''CRN''"
    unfolding assms merge_min_speed using that
    by (simp add: map_add_def select_cols_def)
qed

lemma finish_crash_other:
  "c \<notin> {''ILLUMINATION'', ''DISPATCH_TM'', ''ARRIVAL_TM''} \<Longrightarrow> finish_crash r c = r c"
  by (simp add: finish_crash_def drop_cols_def fillna_col_def)

lemma col_eq_of_eq: "r c = s c \<Longrightarrow> col r c = col s c"
  by (simp add: col_def)

lemma crashes_row:
  assumes run: "clean_crashes cs rw = Inr out" and i: "i < length cs"
  obtains r1 r3 rw' where
    "presence_flags (recode_crash (cs ! i)) = Inr r1"
    "fill_hour (consolidate_weather r1) = Inr r3"
    "fill_speed_limit rw = Inr rw'"
    "i < length out"
    "\<And>c. c \<notin> {''DEC_LAT'', ''DEC_LONG'', ''SPEED_LIMIT''} \<Longrightarrow> col (out ! i) c = col (finish_crash r3) c"
    "\<And>c. c \<notin> {''DEC_LAT'', ''DEC_LONG'', ''SPEED_LIMIT'', ''CRN'', ''ILLUMINATION'', ''DISPATCH_TM'',
              ''ARRIVAL_TM'', ''HOUR_OF_DAY''} \<Longrightarrow> (out ! i) c = consolidate_weather r1 c"
    "col (out ! i) ''SPEED_LIMIT'' = speed_of_CRN rw' (col (finish_crash r3) ''CRN'')"
proof -
  from run obtain t1 t2 t3 rw' where
    s1: "traverse (\<lambda>r. and_then (presence_flags (recode_crash r)) (\<lambda>r. Inr (consolidate_weather r))) cs = Inr t1"
    and s2: "fill_coordinates (fix_coordinates t1) = Inr t2"
    and s3: "traverse fill_hour t2 = Inr t3"
    and s4: "fill_speed_limit rw = Inr rw'"
    and s5: "out = merge_left [''CRN''] [''CRN'', ''SPEED_LIMIT''] (map finish_crash t3) (min_speed_by_CRN rw')"
    by (rule clean_crashes_stages)
  from traverse_nth [OF s1 i] obtain r1 where
    r1: "presence_flags (recode_crash (cs ! i)) = Inr r1" and t1i: "t1 ! i = consolidate_weather r1"
    by (auto simp: and_then_eq_Inr)
  have l1: "i < length t1" using traverse_length [OF s1] i by simp
  have lf: "i < length (fix_coordinates t1)" using l1 by (rule fix_coordinates_nth(1))
  have l2: "i < length t2" using fill_coordinates_nth(1) [OF s2] lf by simp
  have l3: "i < length t3" using traverse_length [OF s3] l2 by simp
  have t2i: "(t2 ! i) c = consolidate_weather r1 c" if "c \<noteq> ''DEC_LAT''" "c \<noteq> ''DEC_LONG''" for c
    using fill_coordinates_nth(2) [OF s2 lf that] fix_coordinates_nth(2) [OF l1 that] t1i by simp
  from traverse_nth [OF s3 l2] have h: "fill_hour (t2 ! i) = Inr (t3 ! i)" .
  then obtain h1 h2 h3 where
    f: "floordiv (col (t2 ! i) ''TIME_OF_DAY'') 100 = Inr h1"
       "floordiv (col (t2 ! i) ''DISPATCH_TM'') 100 = Inr h2"
       "floordiv (col (t2 ! i) ''ARRIVAL_TM'') 100 = Inr h3"
    and t3i: "t3 ! i = (t2 ! i)(''HOUR_OF_DAY'' \<mapsto> fillna h3 (fillna h2 (fillna h1 (col (t2 ! i) ''HOUR_OF_DAY''))))"
    unfolding fill_hour_eq by blast
  define r3 where
    "r3 = (consolidate_weather r1)(''HOUR_OF_DAY'' \<mapsto>
             fillna h3 (fillna h2 (fillna h1 (col (consolidate_weather r1) ''HOUR_OF_DAY''))))"
  have ceq: "col (t2 ! i) c = col (consolidate_weather r1) c" if "c \<noteq> ''DEC_LAT''" "c \<noteq> ''DEC_LONG''" for c
    using t2i [OF that] by (rule col_eq_of_eq)
  have fh: "fill_hour (consolidate_weather r1) = Inr r3"
    unfolding fill_hour_eq r3_def using f by (auto simp: ceq [symmetric])
  have t3c: "(t3 ! i) c = r3 c" if "c \<noteq> ''DEC_LAT''" "c \<noteq> ''DEC_LONG''" for c
    using t2i [OF that] by (simp add: t3i r3_def ceq)
  have c3: "col (t3 ! i) c = col r3 c" if "c \<noteq> ''DEC_LAT''" "c \<noteq> ''DEC_LONG''" for c
    using t3c [OF that] by (rule col_eq_of_eq)
  have fin: "col (finish_crash (t3 ! i)) c = col (finish_crash r3) c" if "c \<noteq> ''DEC_LAT''" "c \<noteq> ''DEC_LONG''" for c
    using c3 [OF that] c3 [of "''ILLUMINATION''"]
    by (simp add: finish_crash_def col_simps)
  have lm: "i < length (map finish_crash t3)" using l3 by simp
  note m = merged_speed_cols [OF s5]
  show thesis
  proof (rule that [OF r1 fh s4])
    show "i < length out" using m(1) l3 by simp
    show "col (out ! i) c = col (finish_crash r3) c" if "c \<notin> {''DEC_LAT'', ''DEC_LONG'', ''SPEED_LIMIT''}" for c
      using that m(2) [OF lm, of c] l3 fin [of c] by simp
    show "(out ! i) c = consolidate_weather r1 c"
      if "c \<notin> {''DEC_LAT'', ''DEC_LONG'', ''SPEED_LIMIT'', ''CRN'', ''ILLUMINATION'', ''DISPATCH_TM'',
              ''ARRIVAL_TM'', ''HOUR_OF_DAY''}" for c
      using that m(3) [OF lm, of c] l3 t3c [of c] finish_crash_other [of c "t3 ! i"]
      by (simp add: r3_def)
    show "col (out ! i) ''SPEED_LIMIT'' = speed_of_CRN rw' (col (finish_crash r3) ''CRN'')"
      using m(2) [OF lm, of "''SPEED_LIMIT''"] l3 fin [of "''CRN''"] by simp
  qed
qed

section \<open>Replacing twice\<close>

lemma app_to_numeric_col:
  "to_numeric_col c r c' = (if c' = c then Some (to_numeric (col r c)) else r c')"
  by (simp add: to_numeric_col_def)
lemma app_replace_col:
  "replace_col d c r c' = (if c' = c then Some (replace d (col r c)) else r c')"
  by (simp add: replace_col_def)
lemma app_replace_into:
  "replace_into dst src d r c' = (if c' = dst then Some (replace d (col r src)) else r c')"
  by (simp add: replace_into_def)
lemma app_fillna_col:
  "fillna_col c w r c' = (if c' = c then Some (fillna w (col r c)) else r c')"
  by (simp add: fillna_col_def)
lemmas app_simps = app_to_numeric_col app_replace_col app_replace_into app_fillna_col

lemma replace_settled: "settled d \<Longrightarrow> replace d (replace d v) = replace d v"
proof (cases "map_of d v")
  case None
  then show ?thesis by (simp add: replace_def)
next
  case (Some w)
  assume "settled d"
  from Some have "(v, w) \<in> set d" by (rule map_of_SomeD)
  with \<open>settled d\<close> have "map_of d w = None"
    by (auto simp: settled_def list_all_iff)
  with Some show ?thesis by (simp add: replace_def)
qed

lemma fillna_fillna: "w \<noteq> NA \<Longrightarrow> fillna w (fillna w v) = fillna w v"
  by (simp add: fillna_def isna_def)

lemma settled_codes:
  "settled [(Str ''Y'', Num 1), (Str ''N'', Num 0), (Str ''U'', NA)]"
  "settled [(Str ''U'', NA), (Num 99, NA)]"
  "settled GRADE_codes" "settled RDWY_ALIGNMENT_codes" "settled VEH_ROLE_codes"
  "settled VEH_TYPE_codes" "settled VEH_POSITION_codes" "settled VEH_MOVEMENT_codes"
  by (simp_all add: settled_def GRADE_codes_def RDWY_ALIGNMENT_codes_def VEH_ROLE_codes_def
      VEH_TYPE_codes_def VEH_POSITION_codes_def VEH_MOVEMENT_codes_def)

lemma label_bicycle_app:
  "label_bicycle r c =
    (if c = ''VEH_ROLE'' then Some (fillna (Str ''non_collision'') (replace VEH_ROLE_codes (col r ''VEH_ROLE'')))
     else if c = ''UNIT_NUM'' then Some (fillna (Num 1) (replace [(Str ''U'', NA), (Num 99, NA)] (col r ''UNIT_NUM'')))
     else if c = ''VEH_MOVEMENT'' then Some (replace VEH_MOVEMENT_codes (col r ''VEH_MOVEMENT''))
     else if c = ''VEH_POSITION'' then Some (replace VEH_POSITION_codes (col r ''VEH_POSITION''))
     else if c = ''VEH_TYPE'' then Some (replace VEH_TYPE_codes (col r ''VEH_TYPE''))
     else if c = ''RDWY_ALIGNMENT'' then Some (replace RDWY_ALIGNMENT_codes (col r ''RDWY_ALIGNMENT''))
     else if c = ''IMPACT_SIDE'' then Some (replace IMPACT_SIDE_codes (replace [(Str ''U'', NA), (Num 99, NA)] (col r ''IMPACT_POINT'')))
     else if c = ''GRADE'' then Some (replace GRADE_codes (col r ''GRADE''))
     else if c = ''IMPACT_POINT'' then Some (replace [(Str ''U'', NA), (Num 99, NA)] (col r ''IMPACT_POINT''))
     else if c = ''PC_REAR_RFLTR_IND'' then Some (replace [(Str ''Y'', Num 1), (Str ''N'', Num 0), (Str ''U'', NA)] (col r ''PC_REAR_RFLTR_IND''))
     else if c = ''PC_HLMT_IND'' then Some (replace [(Str ''Y'', Num 1), (Str ''N'', Num 0), (Str ''U'', NA)] (col r ''PC_HLMT_IND''))
     else if c = ''PC_HDLGHT_IND'' then Some (replace [(Str ''Y'', Num 1), (Str ''N'', Num 0), (Str ''U'', NA)] (col r ''PC_HDLGHT_IND''))
     else r c)"
  by (simp add: label_bicycle_def Let_def app_simps col_simps)

lemma col_label_bicycle:
  "col (label_bicycle r) c = (case label_bicycle r c of None \<Rightarrow> NA | Some v \<Rightarrow> v)"
  by (simp add: col_def)

lemma fill_replace_idem:
  "settled d \<Longrightarrow> map_of d w = None \<Longrightarrow>
     fillna w (replace d (fillna w (replace d v))) = fillna w (replace d v)"
  by (cases "replace d v = NA") (simp_all add: fillna_def isna_def replace_settled, simp add: replace_def)

lemma label_bicycle_idem: "label_bicycle (label_bicycle r) = label_bicycle r"
proof
  fix c
  have role: "map_of VEH_ROLE_codes (Str ''non_collision'') = None"
    and unit: "map_of [(Str ''U'', NA), (Num 99, NA)] (Num 1) = None"
    by (simp_all add: VEH_ROLE_codes_def)
  show "label_bicycle (label_bicycle r) c = label_bicycle r c"
    unfolding label_bicycle_app [of "label_bicycle r"] col_label_bicycle
    by (simp add: label_bicycle_app replace_settled settled_codes
        fill_replace_idem [OF settled_codes(5) role] fill_replace_idem [OF settled_codes(2) unit])
qed


section \<open>Evaluating written-out rows\<close>

lemma row_of_Nil: "row_of [] c = None"
  by (simp add: row_of_def)
lemma row_of_Cons: "row_of ((k, v) # al) c = (if c = k then Some v else row_of al c)"
  by (simp add: row_of_def)
lemma col_row_of_Nil: "col (row_of []) c = NA"
  by (simp add: row_of_def col_def)
lemma col_row_of_Cons: "col (row_of ((k, v) # al)) c = (if c = k then v else col (row_of al) c)"
  by (simp add: row_of_def col_def)
lemma row_of_upd: "(row_of al)(c \<mapsto> v) = row_of (AList.update c v al)"
  by (simp add: row_of_def update_conv')
lemma row_of_del: "(row_of al)(c := None) = row_of (AList.delete c al)"
  by (simp add: row_of_def delete_conv')
lemma row_of_add: "row_of ls ++ row_of ms = row_of (ms @ ls)"
  by (simp add: row_of_def)
lemma row_of_select: "select_cols cs r = row_of (map (\<lambda>c. (c, col r c)) cs)"
  by (rule ext) (simp add: select_cols_def row_of_def map_of_map_restrict restrict_map_def)
lemma row_of_empty_upd: "Map.empty(c \<mapsto> v) = row_of [(c, v)]"
  by (simp add: row_of_def)
lemma row_of_empty: "select_cols cs Map.empty = row_of (map (\<lambda>c. (c, NA)) cs)"
  by (simp add: row_of_select col_empty)

lemmas row_eval = row_of_Nil row_of_Cons col_row_of_Nil col_row_of_Cons row_of_upd row_of_del
  row_of_add row_of_empty row_of_select row_of_empty_upd

lemma and_then_weak_cong: "x = y \<Longrightarrow> and_then x f = and_then y f"
  by simp
lemma traverse_weak_cong: "xs = ys \<Longrightarrow> traverse f xs = traverse f ys"
  by simp
lemma map_weak_cong: "xs = ys \<Longrightarrow> map f xs = map f ys"
  by simp
lemma filter_weak_cong: "xs = ys \<Longrightarrow> filter f xs = filter f ys"
  by simp
lemma fold_weak_cong: "xs = ys \<Longrightarrow> s = t \<Longrightarrow> fold f xs s = fold f ys t"
  by simp
lemmas eval_cong = let_weak_cong and_then_weak_cong traverse_weak_cong map_weak_cong
  filter_weak_cong fold_weak_cong

lemmas stmt_defs = to_numeric_col_def replace_col_def replace_into_def fillna_col_def fill_WEATHER1_def
  clear_WEATHER2_def prefer_WEATHER2_def rename_col_def drop_cols_def infer_WEATHER_def
  infer_ROAD_CONDITION_def

lemmas run_defs = pipeline_def clean_bicycles_def clean_persons_def clean_crashes_def join_cyclists_def
  with_index_def set_at_def fix_coordinates_def fill_coordinates_def fill_group_mean_def group_values_def
  mean_def nums_def fill_hour_def fill_hour_from_def fill_speed_limit_def mode0_def astype_int_def
  min_speed_by_CRN_def min_cells_def merge_left_def presence_flags_def presence_col_def
  derive_cyclist_def

lemmas row_defs = recode_bicycle_def label_bicycle_def coerce_bicycle_def recode_person_def recode_crash_def
  consolidate_weather_def finish_crash_def

lemmas cell_defs = replace_def fillna_def isna_def cell_eq_def SERIOUS_OR_FATALITY_def
  parse_number_def parse_inf_def lower_def strip_def is_space_def
  mantissa_def exponent_def pow10_def is_e_def digit_val_def min_cell_def bins_def bin_edges_def digit_char_def string_of_nat.simps
  person_cols_def crash_cols_def

lemmas code_tables = GRADE_codes_def IMPACT_SIDE_codes_def RDWY_ALIGNMENT_codes_def VEH_ROLE_codes_def
  VEH_TYPE_codes_def VEH_POSITION_codes_def VEH_MOVEMENT_codes_def INJ_SEVERITY_codes_def
  PERSON_TYPE_codes_def RESTRAINT_HELMET_codes_def COLLISION_TYPE_codes_def ILLUMINATION_codes_def
  ROAD_CONDITION_codes_def URBAN_RURAL_codes_def INTERSECT_TYPE_codes_def LOCATION_TYPE_codes_def
  RELATION_TO_ROAD_codes_def TCD_TYPE_codes_def TCD_FUNC_CD_codes_def WEATHER_codes_def

lemmas eval = row_eval stmt_defs run_defs row_defs cell_defs code_tables Let_def

section \<open>Coercing and replacing twice\<close>

lemma lower_cases:
  assumes "lower c = x"
  shows "c = x \<or> (c, x) \<in> set (zip ''ABCDEFGHIJKLMNOPQRSTUVWXYZ'' ''abcdefghijklmnopqrstuvwxyz'')"
proof (cases "map_of (zip ''ABCDEFGHIJKLMNOPQRSTUVWXYZ'' ''abcdefghijklmnopqrstuvwxyz'') c")
  case None
  with assms have "c = x" unfolding lower_def by (simp only: option.case)
  then show ?thesis ..
next
  case (Some l)
  with assms have "l = x" unfolding lower_def by (simp only: option.case)
  with Some have "map_of (zip ''ABCDEFGHIJKLMNOPQRSTUVWXYZ'' ''abcdefghijklmnopqrstuvwxyz'') c = Some x"
    by (simp only:)
  then have "(c, x) \<in> set (zip ''ABCDEFGHIJKLMNOPQRSTUVWXYZ'' ''abcdefghijklmnopqrstuvwxyz'')"
    by (rule map_of_SomeD)
  then show ?thesis ..
qed

lemma zip_i: "(c, CHR ''i'') \<in> set (zip ''ABCDEFGHIJKLMNOPQRSTUVWXYZ'' ''abcdefghijklmnopqrstuvwxyz'') \<Longrightarrow> c = CHR ''I''"
  by simp
lemma zip_minus: "(c, CHR ''-'') \<in> set (zip ''ABCDEFGHIJKLMNOPQRSTUVWXYZ'' ''abcdefghijklmnopqrstuvwxyz'') \<Longrightarrow> False"
  by simp
lemma zip_plus: "(c, CHR ''+'') \<in> set (zip ''ABCDEFGHIJKLMNOPQRSTUVWXYZ'' ''abcdefghijklmnopqrstuvwxyz'') \<Longrightarrow> False"
  by simp

lemma to_numeric_not_text: "\<not> is_text (to_numeric v)"
  by (cases v) (auto split: option.splits)

lemma to_numeric_id: "\<not> is_text v \<Longrightarrow> to_numeric v = v"
  by (cases v) auto

lemma to_numeric_twice: "to_numeric (to_numeric v) = to_numeric v"
  by (simp add: to_numeric_id to_numeric_not_text)

lemma strip_Cons: "\<not> is_space c \<Longrightarrow> \<exists>cs'. strip (c # cs) = c # cs'"
proof -
  assume c: "\<not> is_space c"
  have "\<exists>ys. dropWhile is_space (xs @ [c]) = ys @ [c]" for xs
    using c by (induction xs) auto
  then obtain ys where "dropWhile is_space (rev cs @ [c]) = ys @ [c]" by blast
  with c show ?thesis by (simp add: strip_def)
qed

lemma lower_word_start:
  assumes "word_start c"
  shows "lower c \<noteq> CHR ''i''" "lower c \<noteq> CHR ''-''" "lower c \<noteq> CHR ''+''"
proof -
  from assms have n: "c \<noteq> CHR ''i''" "c \<noteq> CHR ''I''" "c \<noteq> CHR ''-''" "c \<noteq> CHR ''+''"
    by (simp_all add: word_start_def)
  show "lower c \<noteq> CHR ''i''"
    using lower_cases [of c "CHR ''i''"] zip_i [of c] n by blast
  show "lower c \<noteq> CHR ''-''"
    using lower_cases [of c "CHR ''-''"] zip_minus [of c] n by blast
  show "lower c \<noteq> CHR ''+''"
    using lower_cases [of c "CHR ''+''"] zip_plus [of c] n by blast
qed

lemma parse_inf_None:
  assumes "lower c \<noteq> CHR ''i''" "lower c \<noteq> CHR ''-''" "lower c \<noteq> CHR ''+''"
  shows "parse_inf (c # cs) = None"
  using assms unfolding parse_inf_def by simp

lemma mantissa_word:
  assumes "digit_val c = None" "c \<noteq> CHR ''.''"
  shows "mantissa (takeWhile (\<lambda>c. \<not> is_e c) (c # cs')) = None"
proof (cases "is_e c")
  case True
  then show ?thesis by (simp add: mantissa_def)
next
  case False
  then have t: "takeWhile (\<lambda>c. \<not> is_e c) (c # cs') = c # takeWhile (\<lambda>c. \<not> is_e c) cs'"
    by simp
  show ?thesis
    unfolding t mantissa_def using assms by (simp add: Let_def)
qed

lemma word_unreadable:
  assumes "word_start c"
  shows "to_numeric (Str (c # cs)) = NA"
proof -
  from assms have p: "\<not> is_space c" "digit_val c = None" "c \<noteq> CHR ''-''" "c \<noteq> CHR ''+''"
    "c \<noteq> CHR ''.''"
    by (simp_all add: word_start_def)
  have inf: "parse_inf (c # cs) = None"
    using lower_word_start [OF assms] by (rule parse_inf_None)
  from strip_Cons [OF p(1)] obtain cs' where s: "strip (c # cs) = c # cs'" by blast
  have "parse_number (c # cs) = None"
    unfolding parse_number_def s using p(3,4) mantissa_word [OF p(2) p(5), of cs']
    by simp
  with inf show ?thesis by simp
qed

lemma word_startI:
  "\<not> is_space c \<Longrightarrow> digit_val c = None \<Longrightarrow> c \<notin> set ''-+.iI'' \<Longrightarrow> word_start c"
  by (simp add: word_start_def)

lemma unreadable_codes:
  "unreadable RDWY_ALIGNMENT_codes" "unreadable VEH_MOVEMENT_codes" "unreadable VEH_TYPE_codes"
  "unreadable VEH_POSITION_codes" "unreadable VEH_ROLE_codes" "unreadable INJ_SEVERITY_codes"
  by (simp_all add: unreadable_def RDWY_ALIGNMENT_codes_def VEH_MOVEMENT_codes_def VEH_TYPE_codes_def
      VEH_POSITION_codes_def VEH_ROLE_codes_def INJ_SEVERITY_codes_def word_unreadable word_start_def
      is_space_def digit_val_def del: to_numeric.simps)

lemma nc_unreadable: "to_numeric (Str ''non_collision'') = NA"
  by (simp add: word_unreadable word_start_def is_space_def digit_val_def del: to_numeric.simps)

lemma replace_not_text:
  "\<not> is_text v \<Longrightarrow> list_all (\<lambda>(k, w). \<not> is_text w) d \<Longrightarrow> \<not> is_text (replace d v)"
  by (auto simp: replace_def list_all_iff split: option.splits dest!: map_of_SomeD)

lemma second_replace:
  assumes s: "settled d" and u: "unreadable d" and n: "map_of d NA = None"
  shows "replace d (to_numeric (replace d (to_numeric v))) =
     (if is_text (replace d (to_numeric v)) then NA else replace d (to_numeric v))"
proof (cases "is_text (replace d (to_numeric v))")
  case False
  then show ?thesis by (simp add: to_numeric_id replace_settled [OF s])
next
  case True
  then obtain l where l: "map_of d (to_numeric v) = Some l" and r: "replace d (to_numeric v) = l"
    using to_numeric_not_text [of v] by (cases "map_of d (to_numeric v)") (auto simp: replace_def)
  from l have "(to_numeric v, l) \<in> set d" by (rule map_of_SomeD)
  with u True r have "to_numeric l = NA"
    by (auto simp: unreadable_def list_all_iff)
  with True r n show ?thesis by (simp add: replace_def)
qed

lemma second_fill_replace:
  assumes s: "settled d" and u: "unreadable d" and n: "map_of d NA = None"
    and w: "to_numeric (Str w) = NA"
  shows "fillna (Str w) (replace d (to_numeric (fillna (Str w) (replace d (to_numeric v))))) =
     (if is_text (fillna (Str w) (replace d (to_numeric v))) then Str w
      else fillna (Str w) (replace d (to_numeric v)))"
proof (cases "replace d (to_numeric v) = NA")
  case True
  then show ?thesis using w n by (simp add: fillna_def isna_def replace_def del: to_numeric.simps)
next
  case False
  then have f: "fillna (Str w) (replace d (to_numeric v)) = replace d (to_numeric v)"
    by (simp add: fillna_def isna_def)
  show ?thesis
    unfolding f second_replace [OF s u n]
    using False by (simp add: fillna_def isna_def)
qed

lemma col_recode_bicycle_coerced:
  "col (recode_bicycle r) ''RDWY_ALIGNMENT'' = replace RDWY_ALIGNMENT_codes (to_numeric (col r ''RDWY_ALIGNMENT''))"
  "col (recode_bicycle r) ''VEH_MOVEMENT'' = replace VEH_MOVEMENT_codes (to_numeric (col r ''VEH_MOVEMENT''))"
  "col (recode_bicycle r) ''VEH_TYPE'' = replace VEH_TYPE_codes (to_numeric (col r ''VEH_TYPE''))"
  "col (recode_bicycle r) ''VEH_POSITION'' = replace VEH_POSITION_codes (to_numeric (col r ''VEH_POSITION''))"
  "col (recode_bicycle r) ''VEH_ROLE'' =
     fillna (Str ''non_collision'') (replace VEH_ROLE_codes (to_numeric (col r ''VEH_ROLE'')))"
  by (simp_all add: recode_bicycle_def label_bicycle_def coerce_bicycle_def Let_def col_simps
      del: to_numeric.simps)

lemma NA_no_key:
  "map_of RDWY_ALIGNMENT_codes NA = None" "map_of VEH_MOVEMENT_codes NA = None"
  "map_of VEH_TYPE_codes NA = None" "map_of VEH_POSITION_codes NA = None"
  "map_of VEH_ROLE_codes NA = None" "map_of INJ_SEVERITY_codes NA = None"
  by (simp_all add: RDWY_ALIGNMENT_codes_def VEH_MOVEMENT_codes_def VEH_TYPE_codes_def
      VEH_POSITION_codes_def VEH_ROLE_codes_def INJ_SEVERITY_codes_def)

lemma recode_bicycle_second:
  "col (recode_bicycle (recode_bicycle r)) ''RDWY_ALIGNMENT'' =
     (if is_text (col (recode_bicycle r) ''RDWY_ALIGNMENT'') then NA else col (recode_bicycle r) ''RDWY_ALIGNMENT'')"
  "col (recode_bicycle (recode_bicycle r)) ''VEH_MOVEMENT'' =
     (if is_text (col (recode_bicycle r) ''VEH_MOVEMENT'') then NA else col (recode_bicycle r) ''VEH_MOVEMENT'')"
  "col (recode_bicycle (recode_bicycle r)) ''VEH_TYPE'' =
     (if is_text (col (recode_bicycle r) ''VEH_TYPE'') then NA else col (recode_bicycle r) ''VEH_TYPE'')"
  "col (recode_bicycle (recode_bicycle r)) ''VEH_POSITION'' =
     (if is_text (col (recode_bicycle r) ''VEH_POSITION'') then NA else col (recode_bicycle r) ''VEH_POSITION'')"
  "col (recode_bicycle (recode_bicycle r)) ''VEH_ROLE'' =
     (if is_text (col (recode_bicycle r) ''VEH_ROLE'') then Str ''non_collision''
      else col (recode_bicycle r) ''VEH_ROLE'')"
proof -
  show "col (recode_bicycle (recode_bicycle r)) ''RDWY_ALIGNMENT'' =
     (if is_text (col (recode_bicycle r) ''RDWY_ALIGNMENT'') then NA else col (recode_bicycle r) ''RDWY_ALIGNMENT'')"
    unfolding col_recode_bicycle_coerced(1) [of "recode_bicycle r"] unfolding col_recode_bicycle_coerced(1) [of r]
    by (rule second_replace [OF settled_codes(4) unreadable_codes(1) NA_no_key(1)])
  show "col (recode_bicycle (recode_bicycle r)) ''VEH_MOVEMENT'' =
     (if is_text (col (recode_bicycle r) ''VEH_MOVEMENT'') then NA else col (recode_bicycle r) ''VEH_MOVEMENT'')"
    unfolding col_recode_bicycle_coerced(2) [of "recode_bicycle r"] unfolding col_recode_bicycle_coerced(2) [of r]
    by (rule second_replace [OF settled_codes(8) unreadable_codes(2) NA_no_key(2)])
  show "col (recode_bicycle (recode_bicycle r)) ''VEH_TYPE'' =
     (if is_text (col (recode_bicycle r) ''VEH_TYPE'') then NA else col (recode_bicycle r) ''VEH_TYPE'')"
    unfolding col_recode_bicycle_coerced(3) [of "recode_bicycle r"] unfolding col_recode_bicycle_coerced(3) [of r]
    by (rule second_replace [OF settled_codes(6) unreadable_codes(3) NA_no_key(3)])
  show "col (recode_bicycle (recode_bicycle r)) ''VEH_POSITION'' =
     (if is_text (col (recode_bicycle r) ''VEH_POSITION'') then NA else col (recode_bicycle r) ''VEH_POSITION'')"
    unfolding col_recode_bicycle_coerced(4) [of "recode_bicycle r"] unfolding col_recode_bicycle_coerced(4) [of r]
    by (rule second_replace [OF settled_codes(7) unreadable_codes(4) NA_no_key(4)])
  show "col (recode_bicycle (recode_bicycle r)) ''VEH_ROLE'' =
     (if is_text (col (recode_bicycle r) ''VEH_ROLE'') then Str ''non_collision''
      else col (recode_bicycle r) ''VEH_ROLE'')"
    unfolding col_recode_bicycle_coerced(5) [of "recode_bicycle r"] unfolding col_recode_bicycle_coerced(5) [of r]
    by (rule second_fill_replace [OF settled_codes(5) unreadable_codes(5) NA_no_key(5) nc_unreadable])
qed

lemma recode_person_app:
  "recode_person r c =
    (if c = ''RESTRAINT_HELMET'' then Some (replace RESTRAINT_HELMET_codes (col r ''RESTRAINT_HELMET''))
     else if c = ''PERSON_TYPE'' then Some (replace PERSON_TYPE_codes (col r ''PERSON_TYPE''))
     else if c = ''INJ_SEVERITY'' then Some (replace INJ_SEVERITY_codes (to_numeric (col r ''INJ_SEVERITY'')))
     else if c = ''UNIT_NUM'' then Some (replace yn_codes (col r ''UNIT_NUM''))
     else if c = ''TRANSPORTED'' then Some (replace yn_codes (col r ''TRANSPORTED''))
     else if c = ''SEX'' then Some (replace yn_codes (col r ''SEX''))
     else if c = ''AGE'' then Some (replace [(Num 99, NA)] (col r ''AGE''))
     else r c)"
  by (simp add: recode_person_def Let_def app_simps col_simps yn_codes_def del: to_numeric.simps)

lemma settled_person_codes:
  "settled yn_codes" "settled [(Num 99, NA)]" "settled INJ_SEVERITY_codes"
  "settled PERSON_TYPE_codes" "settled RESTRAINT_HELMET_codes"
  by (simp_all add: settled_def yn_codes_def INJ_SEVERITY_codes_def PERSON_TYPE_codes_def
      RESTRAINT_HELMET_codes_def)

lemma col_of_app: "r c = Some v \<Longrightarrow> col r c = v"
  by (simp add: col_def)

lemma col_recode_person:
  "col (recode_person r) c = (case recode_person r c of None \<Rightarrow> NA | Some v \<Rightarrow> v)"
  by (simp add: col_def)

lemma recode_person_twice_other:
  assumes "c \<noteq> ''INJ_SEVERITY''"
  shows "recode_person (recode_person r) c = recode_person r c"
  unfolding recode_person_app [of "recode_person r"] col_recode_person
  using assms by (simp add: recode_person_app replace_settled settled_person_codes del: to_numeric.simps)

lemma recode_person_second:
  "col (recode_person (recode_person r)) ''INJ_SEVERITY'' =
     (if is_text (col (recode_person r) ''INJ_SEVERITY'') then NA
      else col (recode_person r) ''INJ_SEVERITY'')"
proof -
  have c: "col (recode_person s) ''INJ_SEVERITY'' =
      replace INJ_SEVERITY_codes (to_numeric (col s ''INJ_SEVERITY''))" for s
    by (simp add: col_recode_person recode_person_app del: to_numeric.simps)
  show ?thesis
    unfolding c [of "recode_person r"] unfolding c [of r]
    by (rule second_replace [OF settled_person_codes(3) unreadable_codes(6) NA_no_key(6)])
qed

lemma recode_crash_app:
  "recode_crash r c =
    (if c = ''WEATHER2'' then Some (to_numeric (to_numeric (col r ''WEATHER2'')))
     else if c = ''WEATHER1'' then Some (to_numeric (to_numeric (col r ''WEATHER1'')))
     else if c = ''TCD_FUNC_CD'' then Some (replace TCD_FUNC_CD_codes (col r ''TCD_FUNC_CD''))
     else if c = ''TCD_TYPE'' then Some (replace TCD_TYPE_codes (col r ''TCD_TYPE''))
     else if c = ''RELATION_TO_ROAD'' then Some (replace RELATION_TO_ROAD_codes (col r ''RELATION_TO_ROAD''))
     else if c = ''LOCATION_TYPE'' then Some (replace LOCATION_TYPE_codes (col r ''LOCATION_TYPE''))
     else if c = ''INTERSECT_TYPE'' then Some (replace INTERSECT_TYPE_codes (col r ''INTERSECT_TYPE''))
     else if c = ''URBAN_RURAL'' then Some (replace URBAN_RURAL_codes (col r ''URBAN_RURAL''))
     else if c = ''ROAD_CONDITION'' then Some (replace ROAD_CONDITION_codes (col r ''ROAD_CONDITION''))
     else if c = ''ILLUMINATION'' then Some (replace ILLUMINATION_codes (col r ''ILLUMINATION''))
     else if c = ''COLLISION_TYPE'' then Some (replace COLLISION_TYPE_codes (col r ''COLLISION_TYPE''))
     else if c = ''HOUR_OF_DAY'' then Some (replace [(Num 99, NA), (Num 24, Num 0)] (col r ''HOUR_OF_DAY''))
     else if c = ''TIME_OF_DAY'' then Some (replace [(Num 9999, NA)] (to_numeric (col r ''TIME_OF_DAY'')))
     else if c = ''ARRIVAL_TM'' then Some (replace [(Num 9999, NA)] (col r ''ARRIVAL_TM''))
     else if c = ''DISPATCH_TM'' then Some (replace [(Num 9999, NA)] (col r ''DISPATCH_TM''))
     else r c)"
  by (simp add: recode_crash_def Let_def app_simps col_simps del: to_numeric.simps)

lemma settled_crash_codes:
  "settled [(Num 9999, NA)]" "settled [(Num 99, NA), (Num 24, Num 0)]"
  "settled COLLISION_TYPE_codes" "settled ILLUMINATION_codes" "settled ROAD_CONDITION_codes"
  "settled URBAN_RURAL_codes" "settled INTERSECT_TYPE_codes" "settled LOCATION_TYPE_codes"
  "settled RELATION_TO_ROAD_codes" "settled TCD_TYPE_codes" "settled TCD_FUNC_CD_codes"
  by (simp_all add: settled_def COLLISION_TYPE_codes_def ILLUMINATION_codes_def
      ROAD_CONDITION_codes_def URBAN_RURAL_codes_def INTERSECT_TYPE_codes_def
      LOCATION_TYPE_codes_def RELATION_TO_ROAD_codes_def TCD_TYPE_codes_def TCD_FUNC_CD_codes_def)

lemma col_recode_crash:
  "col (recode_crash r) c = (case recode_crash r c of None \<Rightarrow> NA | Some v \<Rightarrow> v)"
  by (simp add: col_def)

lemma time_twice:
  "replace [(Num 9999, NA)] (to_numeric (replace [(Num 9999, NA)] (to_numeric v))) =
     replace [(Num 9999, NA)] (to_numeric v)"
proof -
  have "\<not> is_text (replace [(Num 9999, NA)] (to_numeric v))"
    by (rule replace_not_text) (simp_all add: to_numeric_not_text del: to_numeric.simps)
  then have "to_numeric (replace [(Num 9999, NA)] (to_numeric v)) = replace [(Num 9999, NA)] (to_numeric v)"
    by (rule to_numeric_id)
  then show ?thesis by (simp add: replace_settled settled_crash_codes del: to_numeric.simps)
qed

lemma recode_crash_idem: "recode_crash (recode_crash r) = recode_crash r"
proof
  fix c
  show "recode_crash (recode_crash r) c = recode_crash r c"
    unfolding recode_crash_app [of "recode_crash r"] col_recode_crash
    by (simp add: recode_crash_app replace_settled settled_crash_codes to_numeric_twice time_twice
        del: to_numeric.simps)
qed


section \<open>The stages of the run\<close>

lemma pipeline_stages:
  assumes "pipeline files = Inr out"
  shows "clean_crashes (crashes_raw files) (roadway_raw files) = Inr (crashes_csv out)"
    and "traverse derive_cyclist
           (join_cyclists (clean_persons (persons_raw files)) (clean_bicycles (bicycles_raw files))
              (crashes_csv out)) = Inr (cyclists_csv out)"
  using assms by (auto simp: pipeline_def Let_def and_then_eq_Inr)

lemma merge_left_set:
  assumes "x \<in> set (merge_left keys right_cols left right)"
  obtains l where "l \<in> set left"
    and "(x = l ++ select_cols (filter (\<lambda>c. c \<notin> set keys) right_cols) Map.empty \<and>
          (\<forall>m\<in>set right. map (col m) keys \<noteq> map (col l) keys)) \<or>
         (\<exists>m\<in>set right. map (col m) keys = map (col l) keys \<and> x = l ++ m)"
proof -
  from assms obtain l where l: "l \<in> set left"
    and x: "x \<in> set (case filter (\<lambda>m. map (col m) keys = map (col l) keys) right of
                [] \<Rightarrow> [l ++ select_cols (filter (\<lambda>c. c \<notin> set keys) right_cols) Map.empty]
              | m # ms \<Rightarrow> map (\<lambda>m. l ++ m) (m # ms))"
    unfolding merge_left_def by auto
  show thesis
  proof (cases "filter (\<lambda>m. map (col m) keys = map (col l) keys) right")
    case Nil
    then have "\<forall>m\<in>set right. map (col m) keys \<noteq> map (col l) keys"
      by (simp add: filter_empty_conv)
    with x Nil l show thesis by (intro that [of l]) auto
  next
    case (Cons m ms)
    with x have "x \<in> (\<lambda>m. l ++ m) ` set (filter (\<lambda>m. map (col m) keys = map (col l) keys) right)"
      by (simp only: list.case set_map)
    then obtain m' where "m' \<in> set right" "map (col m') keys = map (col l) keys" "x = l ++ m'"
      by (auto simp del: map_eq_conv)
    then have "(x = l ++ select_cols (filter (\<lambda>c. c \<notin> set keys) right_cols) Map.empty \<and>
          (\<forall>m\<in>set right. map (col m) keys \<noteq> map (col l) keys)) \<or>
         (\<exists>m\<in>set right. map (col m) keys = map (col l) keys \<and> x = l ++ m)"
      by blast
    with l show thesis by (rule that)
  qed
qed

lemma join_cyclists_set:
  assumes "j \<in> set (join_cyclists persons bicycles crashes)"
  obtains p b where "p \<in> set persons" "b \<in> set bicycles"
    and "col b ''CRN'' = col p ''CRN''" "col b ''UNIT_NUM'' = col p ''UNIT_NUM''"
    and "\<not> isna (col b ''VEH_TYPE'')"
    and "(j = drop_cols [''VEH_TYPE'']
               ((select_cols person_cols p ++ b) ++
                 select_cols (filter (\<lambda>c. c \<notin> set [''CRN'']) crash_cols) Map.empty) \<and>
          (\<forall>c\<in>set crashes. col c ''CRN'' \<noteq> col p ''CRN'')) \<or>
         (\<exists>c\<in>set crashes. col c ''CRN'' = col p ''CRN'' \<and>
            j = drop_cols [''VEH_TYPE''] ((select_cols person_cols p ++ b) ++ select_cols crash_cols c))"
proof -
  from assms obtain x where
    x: "x \<in> set (merge_left [''CRN'', ''UNIT_NUM''] [] (map (select_cols person_cols) persons) bicycles)"
    and nn: "\<not> isna (col x ''VEH_TYPE'')"
    and j: "j \<in> drop_cols [''VEH_TYPE''] `
              set (merge_left [''CRN''] crash_cols [x] (map (select_cols crash_cols) crashes))"
    unfolding join_cyclists_def Let_def merge_left_def [of "[''CRN'']"]
    by auto
  from x obtain l where l: "l \<in> set (map (select_cols person_cols) persons)"
    and xl: "(x = l ++ select_cols (filter (\<lambda>c. c \<notin> set [''CRN'', ''UNIT_NUM'']) []) Map.empty \<and>
          (\<forall>m\<in>set bicycles. map (col m) [''CRN'', ''UNIT_NUM''] \<noteq> map (col l) [''CRN'', ''UNIT_NUM''])) \<or>
         (\<exists>m\<in>set bicycles. map (col m) [''CRN'', ''UNIT_NUM''] = map (col l) [''CRN'', ''UNIT_NUM''] \<and> x = l ++ m)"
    by (rule merge_left_set)
  from l obtain p where p: "p \<in> set persons" and lp: "l = select_cols person_cols p"
    by auto
  have "col (l ++ select_cols [] Map.empty) ''VEH_TYPE'' = NA"
    by (simp add: lp col_map_add col_select_cols select_cols_None person_cols_def)
  with xl nn obtain b where b: "b \<in> set bicycles"
    and kb: "map (col b) [''CRN'', ''UNIT_NUM''] = map (col l) [''CRN'', ''UNIT_NUM'']"
    and xb: "x = l ++ b"
    by (auto simp: isna_def)
  have keys: "col b ''CRN'' = col p ''CRN''" "col b ''UNIT_NUM'' = col p ''UNIT_NUM''"
    using kb by (simp_all add: lp col_select_cols person_cols_def)
  have vt: "\<not> isna (col b ''VEH_TYPE'')"
    using nn by (auto simp: xb lp col_map_add col_select_cols person_cols_def isna_def split: if_splits)
  have xcrn: "col x ''CRN'' = col p ''CRN''"
    using keys by (simp add: xb lp col_map_add col_select_cols person_cols_def)
  from j obtain y where y: "y \<in> set (merge_left [''CRN''] crash_cols [x] (map (select_cols crash_cols) crashes))"
    and jy: "j = drop_cols [''VEH_TYPE''] y"
    by auto
  from y obtain l' where l': "l' \<in> set [x]"
    and yl: "(y = l' ++ select_cols (filter (\<lambda>c. c \<notin> set [''CRN'']) crash_cols) Map.empty \<and>
          (\<forall>m\<in>set (map (select_cols crash_cols) crashes). map (col m) [''CRN''] \<noteq> map (col l') [''CRN''])) \<or>
         (\<exists>m\<in>set (map (select_cols crash_cols) crashes). map (col m) [''CRN''] = map (col l') [''CRN''] \<and> y = l' ++ m)"
    by (rule merge_left_set)
  have sc: "col (select_cols crash_cols c) ''CRN'' = col c ''CRN''" for c
    by (simp add: col_select_cols crash_cols_def)
  from l' have l'x: "l' = x" by simp
  have "(j = drop_cols [''VEH_TYPE'']
               ((select_cols person_cols p ++ b) ++
                 select_cols (filter (\<lambda>c. c \<notin> set [''CRN'']) crash_cols) Map.empty) \<and>
          (\<forall>c\<in>set crashes. col c ''CRN'' \<noteq> col p ''CRN'')) \<or>
         (\<exists>c\<in>set crashes. col c ''CRN'' = col p ''CRN'' \<and>
            j = drop_cols [''VEH_TYPE''] ((select_cols person_cols p ++ b) ++ select_cols crash_cols c))"
    using yl
  proof
    assume a: "y = l' ++ select_cols (filter (\<lambda>c. c \<notin> set [''CRN'']) crash_cols) Map.empty \<and>
          (\<forall>m\<in>set (map (select_cols crash_cols) crashes). map (col m) [''CRN''] \<noteq> map (col l') [''CRN''])"
    then have "\<forall>c\<in>set crashes. col c ''CRN'' \<noteq> col p ''CRN''"
      using sc xcrn by (simp add: l'x)
    moreover have "j = drop_cols [''VEH_TYPE'']
               ((select_cols person_cols p ++ b) ++
                 select_cols (filter (\<lambda>c. c \<notin> set [''CRN'']) crash_cols) Map.empty)"
      using a by (simp only: jy l'x xb lp)
    ultimately show ?thesis by blast
  next
    assume "\<exists>m\<in>set (map (select_cols crash_cols) crashes). map (col m) [''CRN''] = map (col l') [''CRN''] \<and> y = l' ++ m"
    then obtain c where c: "c \<in> set crashes"
      and k: "map (col (select_cols crash_cols c)) [''CRN''] = map (col l') [''CRN'']"
      and yc: "y = l' ++ select_cols crash_cols c"
      by auto
    from k have "col c ''CRN'' = col p ''CRN''"
      using sc xcrn by (simp add: l'x)
    moreover have "j = drop_cols [''VEH_TYPE''] ((select_cols person_cols p ++ b) ++ select_cols crash_cols c)"
      by (simp only: jy yc l'x xb lp)
    ultimately show ?thesis using c by blast
  qed
  then show thesis
    by (rule that [OF p b keys vt])
qed

section \<open>The derived columns\<close>

lemma col_fill_unknown:
  "c \<notin> {''WEATHER'', ''ROAD_CONDITION'', ''RESTRAINT_HELMET'', ''IMPACT_SIDE'', ''GRADE'', ''VEH_POSITION''} \<Longrightarrow>
     col (fill_unknown r) c = col r c"
  by (simp add: fill_unknown_def col_simps)

lemma derive_cyclist_eq:
  "derive_cyclist j =
     and_then (cut (col j ''AGE''))
       (\<lambda>b. Inr ((fill_unknown j)(''SERIOUS_OR_FATALITY'' \<mapsto> SERIOUS_OR_FATALITY (col j ''INJ_SEVERITY''),
                   ''AGE_BINS'' \<mapsto> astype_str b)))"
proof -
  have a: "col ((fill_unknown j)(''SERIOUS_OR_FATALITY'' \<mapsto> v)) ''AGE'' = col j ''AGE''" for v
    by (simp add: col_upd col_fill_unknown)
  have i: "col (fill_unknown j) ''INJ_SEVERITY'' = col j ''INJ_SEVERITY''"
    by (simp add: col_fill_unknown)
  show ?thesis
    unfolding derive_cyclist_def Let_def fill_unknown_def [symmetric] a i ..
qed

lemma derive_cyclist_cols:
  assumes "derive_cyclist j = Inr r"
  shows "col r ''SERIOUS_OR_FATALITY'' = SERIOUS_OR_FATALITY (col j ''INJ_SEVERITY'')"
    and "\<exists>b. cut (col j ''AGE'') = Inr b \<and> col r ''AGE_BINS'' = astype_str b"
    and "c \<notin> {''WEATHER'', ''ROAD_CONDITION'', ''RESTRAINT_HELMET'', ''IMPACT_SIDE'', ''GRADE'',
            ''VEH_POSITION'', ''SERIOUS_OR_FATALITY'', ''AGE_BINS''} \<Longrightarrow> col r c = col j c"
proof -
  from assms obtain b where b: "cut (col j ''AGE'') = Inr b"
    and r: "r = (fill_unknown j)(''SERIOUS_OR_FATALITY'' \<mapsto> SERIOUS_OR_FATALITY (col j ''INJ_SEVERITY''),
                   ''AGE_BINS'' \<mapsto> astype_str b)"
    unfolding derive_cyclist_eq and_then_eq_Inr by blast
  show "col r ''SERIOUS_OR_FATALITY'' = SERIOUS_OR_FATALITY (col j ''INJ_SEVERITY'')"
    by (simp add: r col_upd)
  show "\<exists>b. cut (col j ''AGE'') = Inr b \<and> col r ''AGE_BINS'' = astype_str b"
    using b by (simp add: r col_upd)
  show "col r c = col j c"
    if "c \<notin> {''WEATHER'', ''ROAD_CONDITION'', ''RESTRAINT_HELMET'', ''IMPACT_SIDE'', ''GRADE'',
            ''VEH_POSITION'', ''SERIOUS_OR_FATALITY'', ''AGE_BINS''}"
    using that by (simp add: r col_upd col_fill_unknown)
qed

lemma cyclists_rows:
  assumes "pipeline files = Inr out" and "r \<in> set (cyclists_csv out)"
  obtains j where
    "j \<in> set (join_cyclists (clean_persons (persons_raw files)) (clean_bicycles (bicycles_raw files))
               (crashes_csv out))"
    and "derive_cyclist j = Inr r"
  using traverse_set [OF pipeline_stages(2) [OF assms(1)] assms(2)] by blast


section \<open>The small run, evaluated\<close>

lemma floor_rat_numeral: "\<lfloor>(numeral a :: rat) / numeral b\<rfloor> = numeral a div numeral b"
  using floor_divide_of_int_eq [of "numeral a" "numeral b", where ?'a = rat] by simp

lemma example_bicycles_cleaned: "clean_bicycles example_bicycles = example_cleaned_bicycles"
  by (simp add: example_bicycles_def example_cleaned_bicycles_def eval cong: eval_cong)

lemma example_persons_cleaned: "clean_persons example_persons = example_cleaned_persons"
  by (simp add: example_persons_def example_cleaned_persons_def eval cong: eval_cong)

lemma example_crashes_cleaned:
  "clean_crashes example_crashes example_roadway = Inr example_cleaned_crashes"
  by (simp add: example_crashes_def example_roadway_def example_cleaned_crashes_def eval
      floor_rat_numeral cong: eval_cong)

lemma example_cyclists_joined:
  "join_cyclists example_cleaned_persons example_cleaned_bicycles example_cleaned_crashes =
     example_joined"
  by (simp add: example_cleaned_persons_def example_cleaned_bicycles_def example_cleaned_crashes_def
      example_joined_def eval cong: eval_cong)

lemma example_cyclists_derived: "traverse derive_cyclist example_joined = Inr example_cyclists"
  by (simp add: example_joined_def example_cyclists_def eval cong: eval_cong)

lemma example_run: "pipeline example_files = Inr example_exported"
  by (simp add: pipeline_def example_files_def example_exported_def example_bicycles_cleaned
      example_persons_cleaned example_crashes_cleaned example_cyclists_joined
      example_cyclists_derived)


section \<open>The impact side\<close>

lemma impact_side_recode:
  "col (recode_bicycle r) ''IMPACT_SIDE'' =
     replace IMPACT_SIDE_codes (replace [(Str ''U'', NA), (Num 99, NA)] (col r ''IMPACT_POINT''))"
  by (simp add: recode_bicycle_def label_bicycle_def coerce_bicycle_def Let_def col_simps)

text \<open>
  C8. The recode of the bicycles table derives the impact side from the impact point by a
  fixed lookup: the clock positions 11, 12 and 1 give \<open>front\<close>, code 0 gives
  \<open>non_collision\<close>, 13 gives \<open>top\<close>, 14 gives \<open>undercarriage\<close>, and the sentinel 99
  gives a missing cell; the other clock positions give the remaining seven sides, and a
  number outside the table is kept.
\<close>

theorem impact_side_lookup:
  assumes "i < length bicycles"
    and "col (bicycles ! i) ''IMPACT_POINT'' = Num k"
  shows "col (clean_bicycles bicycles ! i) ''IMPACT_SIDE'' =
     (if k \<in> {11, 12, 1} then Str ''front''
      else if k = 0 then Str ''non_collision''
      else if k = 13 then Str ''top''
      else if k = 14 then Str ''undercarriage''
      else if k = 99 then NA
      else if k = 2 then Str ''front_right''
      else if k = 3 then Str ''right''
      else if k = 4 then Str ''rear_right''
      else if k \<in> {5, 6, 7} then Str ''rear''
      else if k = 8 then Str ''rear_left''
      else if k = 9 then Str ''left''
      else if k = 10 then Str ''front_left''
      else Num k)"
  using assms by (simp add: clean_bicycles_def impact_side_recode replace_def IMPACT_SIDE_codes_def)

theorem impact_side_lookup_witness:
  "col (clean_bicycles [row_of [(''IMPACT_POINT'', Num 12)], row_of [(''IMPACT_POINT'', Num 99)]] ! 0)
     ''IMPACT_SIDE'' = Str ''front'' \<and>
   col (clean_bicycles [row_of [(''IMPACT_POINT'', Num 12)], row_of [(''IMPACT_POINT'', Num 99)]] ! 1)
     ''IMPACT_SIDE'' = NA"
  using impact_side_lookup [of 0 "[row_of [(''IMPACT_POINT'', Num 12)], row_of [(''IMPACT_POINT'', Num 99)]]" 12]
    impact_side_lookup [of 1 "[row_of [(''IMPACT_POINT'', Num 12)], row_of [(''IMPACT_POINT'', Num 99)]]" 99]
  by (simp add: col_row_of_Cons)

section \<open>Recoding a recoded table\<close>

lemma coerce_bicycle_app:
  "coerce_bicycle r c =
     (if c \<in> {''RDWY_ALIGNMENT'', ''VEH_MOVEMENT'', ''VEH_TYPE'', ''VEH_POSITION'', ''VEH_ROLE''}
      then Some (to_numeric (col r c)) else r c)"
  by (simp add: coerce_bicycle_def app_simps col_simps)

lemma col_coerce_bicycle:
  "col (coerce_bicycle r) c =
     (if c \<in> {''RDWY_ALIGNMENT'', ''VEH_MOVEMENT'', ''VEH_TYPE'', ''VEH_POSITION'', ''VEH_ROLE''}
      then to_numeric (col r c) else col r c)"
  by (simp add: col_def [of "coerce_bicycle r"] coerce_bicycle_app) (simp add: col_def)

lemma recode_bicycle_twice_other:
  assumes "c \<notin> {''RDWY_ALIGNMENT'', ''VEH_MOVEMENT'', ''VEH_TYPE'', ''VEH_POSITION'', ''VEH_ROLE''}"
  shows "recode_bicycle (recode_bicycle r) c = recode_bicycle r c"
proof -
  have "label_bicycle (coerce_bicycle (label_bicycle s)) c = label_bicycle (label_bicycle s) c" for s
    using assms
    by (simp add: label_bicycle_app [of "coerce_bicycle (label_bicycle s)"]
        label_bicycle_app [of "label_bicycle s"] col_coerce_bicycle coerce_bicycle_app)
  then show ?thesis
    by (simp add: recode_bicycle_def label_bicycle_idem)
qed

lemma recode_bicycle_coerced_Some:
  assumes "c \<in> {''RDWY_ALIGNMENT'', ''VEH_MOVEMENT'', ''VEH_TYPE'', ''VEH_POSITION'', ''VEH_ROLE''}"
  shows "recode_bicycle r c = Some (col (recode_bicycle r) c)"
proof -
  have "\<exists>v. recode_bicycle r c = Some v"
    using assms by (auto simp: recode_bicycle_def label_bicycle_app)
  then show ?thesis by (auto simp: col_def)
qed

lemma recode_bicycle_second_col:
  assumes "c \<in> {''RDWY_ALIGNMENT'', ''VEH_MOVEMENT'', ''VEH_TYPE'', ''VEH_POSITION'', ''VEH_ROLE''}"
  shows "col (recode_bicycle (recode_bicycle r)) c =
     (if c \<in> {''RDWY_ALIGNMENT'', ''VEH_MOVEMENT'', ''VEH_TYPE'', ''VEH_POSITION''} \<and>
         is_text (col (recode_bicycle r) c) then NA
      else if c = ''VEH_ROLE'' \<and> is_text (col (recode_bicycle r) c) then Str ''non_collision''
      else col (recode_bicycle r) c)"
  using assms
proof (elim insertE emptyE)
  assume "c = ''RDWY_ALIGNMENT''" then show ?thesis by (simp only: recode_bicycle_second) simp
next
  assume "c = ''VEH_MOVEMENT''" then show ?thesis by (simp only: recode_bicycle_second) simp
next
  assume "c = ''VEH_TYPE''" then show ?thesis by (simp only: recode_bicycle_second) simp
next
  assume "c = ''VEH_POSITION''" then show ?thesis by (simp only: recode_bicycle_second) simp
next
  assume "c = ''VEH_ROLE''" then show ?thesis by (simp only: recode_bicycle_second) simp
qed

lemma recode_bicycle_twice_app:
  "recode_bicycle (recode_bicycle r) c =
     (if c \<in> {''RDWY_ALIGNMENT'', ''VEH_MOVEMENT'', ''VEH_TYPE'', ''VEH_POSITION''} \<and>
         is_text (col (recode_bicycle r) c) then Some NA
      else if c = ''VEH_ROLE'' \<and> is_text (col (recode_bicycle r) c) then Some (Str ''non_collision'')
      else recode_bicycle r c)"
proof (cases "c \<in> {''RDWY_ALIGNMENT'', ''VEH_MOVEMENT'', ''VEH_TYPE'', ''VEH_POSITION'', ''VEH_ROLE''}")
  case False
  then show ?thesis by (simp add: recode_bicycle_twice_other)
next
  case True
  have two: "recode_bicycle (recode_bicycle r) c = Some (col (recode_bicycle (recode_bicycle r)) c)"
    using True by (rule recode_bicycle_coerced_Some)
  have one: "recode_bicycle r c = Some (col (recode_bicycle r) c)"
    using True by (rule recode_bicycle_coerced_Some)
  have key: "Some (col (recode_bicycle (recode_bicycle r)) c) =
     (if c \<in> {''RDWY_ALIGNMENT'', ''VEH_MOVEMENT'', ''VEH_TYPE'', ''VEH_POSITION''} \<and>
         is_text (col (recode_bicycle r) c) then Some NA
      else if c = ''VEH_ROLE'' \<and> is_text (col (recode_bicycle r) c) then Some (Str ''non_collision'')
      else Some (col (recode_bicycle r) c))"
    by (simp only: recode_bicycle_second_col [OF True] if_distrib [of Some])
  show ?thesis
    by (simp only: two) (simp only: key one [symmetric])
qed

lemma recode_person_twice_app:
  "recode_person (recode_person p) c =
     (if c = ''INJ_SEVERITY'' \<and> is_text (col (recode_person p) c) then Some NA
      else recode_person p c)"
proof (cases "c = ''INJ_SEVERITY''")
  case False
  then show ?thesis by (simp add: recode_person_twice_other)
next
  case True
  have "recode_person s ''INJ_SEVERITY'' = Some (col (recode_person s) ''INJ_SEVERITY'')" for s
    by (simp add: col_recode_person recode_person_app del: to_numeric.simps)
  from this [of "recode_person p"] this [of p] True show ?thesis
    by (simp add: recode_person_second)
qed

text \<open>
  C9, as the code has it. The claim fails on one row: a bicycle of vehicle type
  20 is recoded to \<open>bicycle\<close>, and recoding the recoded row coerces that label to a
  missing cell.
\<close>

theorem coercion_breaks_idempotence:
  "col (clean_bicycles [row_of [(''VEH_TYPE'', Num 20)]] ! 0) ''VEH_TYPE'' = Str ''bicycle'' \<and>
   col (clean_bicycles (clean_bicycles [row_of [(''VEH_TYPE'', Num 20)]]) ! 0) ''VEH_TYPE'' = NA"
  by (simp add: clean_bicycles_def recode_bicycle_def label_bicycle_def coerce_bicycle_def Let_def
      col_simps row_of_def replace_def VEH_TYPE_codes_def parse_number_def parse_inf_def lower_def strip_def is_space_def
      mantissa_def exponent_def pow10_def is_e_def digit_val_def)

text \<open>
  C9, amended. Running the dictionary replacements and fills of the bicycles recode on the
  recoded table changes nothing, since no label is a key of a dictionary. A second run of
  the whole bicycles recode, coercion included, turns every text label of RDWY_ALIGNMENT,
  VEH_MOVEMENT, VEH_TYPE and VEH_POSITION into a missing cell and every text label of
  VEH_ROLE into \<open>non_collision\<close> (the fill follows the coercion), and leaves every
  other cell as it is. A second run of the persons recode turns every text label of
  INJ_SEVERITY into a missing cell and leaves every other field as it is. A second run of
  the crashes recode, the coercions and replacements that precede the presence flags,
  changes no field.
\<close>

theorem recode_twice:
  "map label_bicycle (clean_bicycles bicycles) = clean_bicycles bicycles \<and>
   (\<forall>i < length bicycles. \<forall>c.
      (clean_bicycles (clean_bicycles bicycles) ! i) c =
        (if c \<in> {''RDWY_ALIGNMENT'', ''VEH_MOVEMENT'', ''VEH_TYPE'', ''VEH_POSITION''} \<and>
            is_text (col (clean_bicycles bicycles ! i) c) then Some NA
         else if c = ''VEH_ROLE'' \<and> is_text (col (clean_bicycles bicycles ! i) c)
         then Some (Str ''non_collision'')
         else (clean_bicycles bicycles ! i) c)) \<and>
   (\<forall>c. recode_person (recode_person p) c =
        (if c = ''INJ_SEVERITY'' \<and> is_text (col (recode_person p) c) then Some NA
         else recode_person p c)) \<and>
   recode_crash (recode_crash r) = recode_crash r"
proof (intro conjI allI impI)
  show "map label_bicycle (clean_bicycles bicycles) = clean_bicycles bicycles"
    by (simp add: clean_bicycles_def recode_bicycle_def label_bicycle_idem)
next
  fix i c
  assume "i < length bicycles"
  then have "clean_bicycles (clean_bicycles bicycles) ! i = recode_bicycle (recode_bicycle (bicycles ! i))"
    and "clean_bicycles bicycles ! i = recode_bicycle (bicycles ! i)"
    by (simp_all add: clean_bicycles_def)
  then show "(clean_bicycles (clean_bicycles bicycles) ! i) c =
        (if c \<in> {''RDWY_ALIGNMENT'', ''VEH_MOVEMENT'', ''VEH_TYPE'', ''VEH_POSITION''} \<and>
            is_text (col (clean_bicycles bicycles ! i) c) then Some NA
         else if c = ''VEH_ROLE'' \<and> is_text (col (clean_bicycles bicycles ! i) c)
         then Some (Str ''non_collision'')
         else (clean_bicycles bicycles ! i) c)"
    by (simp only: recode_bicycle_twice_app)
next
  fix c
  show "recode_person (recode_person p) c =
        (if c = ''INJ_SEVERITY'' \<and> is_text (col (recode_person p) c) then Some NA
         else recode_person p c)"
    by (rule recode_person_twice_app)
next
  show "recode_crash (recode_crash r) = recode_crash r"
    by (rule recode_crash_idem)
qed

theorem recode_twice_witness:
  "map label_bicycle (clean_bicycles
       [row_of [(''VEH_TYPE'', Num 20), (''VEH_ROLE'', Num 1), (''VEH_POSITION'', Num 77), (''GRADE'', Num 2)]]) =
     clean_bicycles
       [row_of [(''VEH_TYPE'', Num 20), (''VEH_ROLE'', Num 1), (''VEH_POSITION'', Num 77), (''GRADE'', Num 2)]] \<and>
   (clean_bicycles (clean_bicycles
       [row_of [(''VEH_TYPE'', Num 20), (''VEH_ROLE'', Num 1), (''VEH_POSITION'', Num 77), (''GRADE'', Num 2)]]) ! 0)
     ''VEH_TYPE'' = Some NA \<and>
   (clean_bicycles (clean_bicycles
       [row_of [(''VEH_TYPE'', Num 20), (''VEH_ROLE'', Num 1), (''VEH_POSITION'', Num 77), (''GRADE'', Num 2)]]) ! 0)
     ''VEH_ROLE'' = Some (Str ''non_collision'') \<and>
   (clean_bicycles (clean_bicycles
       [row_of [(''VEH_TYPE'', Num 20), (''VEH_ROLE'', Num 1), (''VEH_POSITION'', Num 77), (''GRADE'', Num 2)]]) ! 0)
     ''VEH_POSITION'' = Some (Num 77) \<and>
   (clean_bicycles (clean_bicycles
       [row_of [(''VEH_TYPE'', Num 20), (''VEH_ROLE'', Num 1), (''VEH_POSITION'', Num 77), (''GRADE'', Num 2)]]) ! 0)
     ''GRADE'' = Some (Str ''uphill'') \<and>
   recode_person (recode_person (row_of [(''INJ_SEVERITY'', Num 1), (''AGE'', Num 34)])) ''INJ_SEVERITY'' =
     Some NA \<and>
   recode_person (recode_person (row_of [(''INJ_SEVERITY'', Num 1), (''AGE'', Num 34)])) ''AGE'' =
     Some (Num 34) \<and>
   recode_crash (recode_crash (row_of [(''ILLUMINATION'', Num 1)])) =
     recode_crash (row_of [(''ILLUMINATION'', Num 1)])"
proof -
  let ?b = "[row_of [(''VEH_TYPE'', Num 20), (''VEH_ROLE'', Num 1), (''VEH_POSITION'', Num 77), (''GRADE'', Num 2)]]"
  let ?p = "row_of [(''INJ_SEVERITY'', Num 1), (''AGE'', Num 34)]"
  note T = recode_twice [of ?b ?p "row_of [(''ILLUMINATION'', Num 1)]"]
  note B = T [THEN conjunct2, THEN conjunct1, rule_format, of 0]
  note P = T [THEN conjunct2, THEN conjunct2, THEN conjunct1, rule_format]
  have first:
    "col (clean_bicycles ?b ! 0) ''VEH_TYPE'' = Str ''bicycle''"
    "col (clean_bicycles ?b ! 0) ''VEH_ROLE'' = Str ''striking''"
    "col (clean_bicycles ?b ! 0) ''VEH_POSITION'' = Num 77"
    by (simp_all add: clean_bicycles_def col_recode_bicycle_coerced col_row_of_Cons col_row_of_Nil
        replace_def fillna_def isna_def VEH_TYPE_codes_def VEH_ROLE_codes_def VEH_POSITION_codes_def)
  have kept:
    "(clean_bicycles ?b ! 0) ''VEH_POSITION'' = Some (Num 77)"
    "(clean_bicycles ?b ! 0) ''GRADE'' = Some (Str ''uphill'')"
    by (simp_all add: clean_bicycles_def recode_bicycle_def label_bicycle_app col_coerce_bicycle
        col_row_of_Cons col_row_of_Nil replace_def VEH_POSITION_codes_def GRADE_codes_def)
  have person:
    "col (recode_person ?p) ''INJ_SEVERITY'' = Str ''killed''"
    "recode_person ?p ''AGE'' = Some (Num 34)"
    by (simp_all add: col_recode_person recode_person_app col_row_of_Cons col_row_of_Nil replace_def
        INJ_SEVERITY_codes_def)
  show ?thesis
    using T [THEN conjunct1] B [of "''VEH_TYPE''"] B [of "''VEH_ROLE''"] B [of "''VEH_POSITION''"]
      B [of "''GRADE''"] P [of "''INJ_SEVERITY''"] P [of "''AGE''"]
      T [THEN conjunct2, THEN conjunct2, THEN conjunct2]
    by (simp add: first kept person)
qed

end
